theory Spec2Isabelle
  imports Complex_Main
begin

section \<open>Endpoint pool (RPCManager)\<close>

text \<open>
  The pool of \<^verbatim>\<open>src/utils/rpcManager.js\<close> keeps four parallel arrays, one slot per
  configured URL, and the rotation pointer \<^verbatim>\<open>currentIndex\<close>. An endpoint is identified
  by its slot number; \<^verbatim>\<open>this.providers[idx]\<close> is modelled by the index \<open>idx\<close> itself.
  Timestamps are milliseconds (\<^verbatim>\<open>Date.now()\<close>), failure counts are naturals.
\<close>

record rpc_manager =
  rpcUrls :: "string list"
  currentIndex :: nat
  failCounts :: "nat list"
  lastUsed :: "int list"
  healthStatus :: "bool list"

text \<open>The constructor: \<^verbatim>\<open>[BSC_RPC_URL, ...BACKUP_RPC_URLS]\<close>, every slot fresh.\<close>

definition rpc_init :: "string \<Rightarrow> string list \<Rightarrow> rpc_manager" where
  "rpc_init primary backups =
     \<lparr> rpcUrls = primary # backups,
       currentIndex = 0,
       failCounts = map (\<lambda>_. 0) (primary # backups),
       lastUsed = map (\<lambda>_. 0) (primary # backups),
       healthStatus = map (\<lambda>_. True) (primary # backups) \<rparr>"

text \<open>\<^verbatim>\<open>this.providers.length\<close>\<close>

definition providers_length :: "rpc_manager \<Rightarrow> nat" where
  "providers_length m = length (rpcUrls m)"

text \<open>
  The shape every reachable pool has: the four arrays have one slot per URL, there is
  at least one URL, and the pointer is a slot. Under it no array access of the source
  is out of range.
\<close>

definition rpc_wf :: "rpc_manager \<Rightarrow> bool" where
  "rpc_wf m \<longleftrightarrow>
     rpcUrls m \<noteq> [] \<and>
     length (failCounts m) = length (rpcUrls m) \<and>
     length (lastUsed m) = length (rpcUrls m) \<and>
     length (healthStatus m) = length (rpcUrls m) \<and>
     currentIndex m < length (rpcUrls m)"

text \<open>
  The test both branches of \<^verbatim>\<open>getProvider\<close> apply to a slot:
  \<^verbatim>\<open>healthStatus[idx] && failCounts[idx] < 3 && now - lastUsed[idx] > 500\<close>.
\<close>

definition qualifies :: "rpc_manager \<Rightarrow> int \<Rightarrow> nat \<Rightarrow> bool" where
  "qualifies m now idx \<longleftrightarrow>
     healthStatus m ! idx \<and> failCounts m ! idx < 3 \<and> now - lastUsed m ! idx > 500"

text \<open>The slot the loop of \<^verbatim>\<open>getProvider\<close> looks at in round \<open>i\<close>.\<close>

definition rotation :: "rpc_manager \<Rightarrow> nat \<Rightarrow> nat" where
  "rotation m i = (currentIndex m + i + 1) mod providers_length m"

text \<open>
  \<^verbatim>\<open>for (let i = 0; i < this.providers.length; i++)\<close>: the first qualifying slot in
  rotation order from round \<open>i\<close> on, or \<open>None\<close> when the loop falls through.
\<close>

function findProvider :: "rpc_manager \<Rightarrow> int \<Rightarrow> nat \<Rightarrow> nat option" where
  "findProvider m now i =
     (if i < providers_length m
      then (if qualifies m now (rotation m i) then Some (rotation m i)
            else findProvider m now (i + 1))
      else None)"
  by pat_completeness auto
termination
  by (relation "measure (\<lambda>(m, now, i). providers_length m - i)") auto

declare findProvider.simps [simp del]

text \<open>\<^verbatim>\<open>getProvider()\<close> at clock reading \<open>now\<close>: the chosen slot and the updated pool.\<close>

definition getProvider :: "rpc_manager \<Rightarrow> int \<Rightarrow> nat \<times> rpc_manager" where
  "getProvider m now =
     (if qualifies m now (currentIndex m)
      then (currentIndex m, m\<lparr>lastUsed := (lastUsed m)[currentIndex m := now]\<rparr>)
      else
        (case findProvider m now 0 of
           Some idx \<Rightarrow>
             (idx, m\<lparr>currentIndex := idx, lastUsed := (lastUsed m)[idx := now]\<rparr>)
         | None \<Rightarrow>
             (0, m\<lparr>failCounts := map (\<lambda>_. 0) (failCounts m),
                    currentIndex := 0,
                    lastUsed := (lastUsed m)[0 := now]\<rparr>)))"

text \<open>
  The callback \<^verbatim>\<open>reportFailure\<close> hands to \<^verbatim>\<open>setTimeout(..., RPC_COOLDOWN_MS)\<close>. It reads
  \<^verbatim>\<open>this.currentIndex\<close> when it runs, so it takes the pool as it is at that moment.
\<close>

definition cooldownCallback :: "rpc_manager \<Rightarrow> rpc_manager" where
  "cooldownCallback m =
     m\<lparr>healthStatus := (healthStatus m)[currentIndex m := True],
       failCounts := (failCounts m)[currentIndex m := 0]\<rparr>"

text \<open>
  \<^verbatim>\<open>reportFailure()\<close>: the updated pool, and whether a cooldown timer was scheduled
  (its callback is \<open>cooldownCallback\<close>, run on the pool of that later moment).
\<close>

definition reportFailure :: "rpc_manager \<Rightarrow> rpc_manager \<times> bool" where
  "reportFailure m =
     (let c = currentIndex m;
          m1 = m\<lparr>failCounts := (failCounts m)[c := failCounts m ! c + 1]\<rparr>
      in if failCounts m1 ! c \<ge> 3
         then (m1\<lparr>healthStatus := (healthStatus m1)[c := False],
                  currentIndex := (c + 1) mod providers_length m1\<rparr>, True)
         else (m1, False))"

definition reportSuccess :: "rpc_manager \<Rightarrow> rpc_manager" where
  "reportSuccess m = m\<lparr>failCounts := (failCounts m)[currentIndex m := 0]\<rparr>"

section \<open>Values, failures and the outside world\<close>

text \<open>
  \<^verbatim>\<open>ethers.BigNumber\<close> values are unbounded integers (\<open>int\<close>). JavaScript numbers
  (prices, percentages, the gas multiplier) are taken as exact rationals: the rounding
  of IEEE doubles is not modelled. A thrown \<^verbatim>\<open>Error\<close> or a rejected promise is a value
  \<open>Exn message\<close>.
\<close>

type_synonym address = string

datatype exn = Exn string

fun message :: "exn \<Rightarrow> string" where
  "message (Exn msg) = msg"

datatype router = PancakeSwap | BiSwap

text \<open>
  The constants of \<^verbatim>\<open>config/constants.js\<close> the code reads. The file is not part of the
  sources, so they are parameters.
\<close>

record config =
  MIN_PROFIT_PERCENTAGE :: rat
  GAS_LIMIT :: int
  WBNB :: address
  BUSD :: address
  USDT :: address
  USDC :: address
  DAI :: address

record arbitrage_data =
  path1 :: "address list"
  path2 :: "address list"
  path3 :: "address list"
  minAmountsOut :: "int list"
  ad_direction :: bool

text \<open>
  What the chain answers. Every call is asked at a clock reading (milliseconds) and
  either rejects (\<open>Inl\<close>) or resolves; \<open>elapse\<close> gives the clock reading at which a call
  started at a given reading has settled. The routers and the contract return
  \<^verbatim>\<open>uint256\<close> values, hence naturals.
\<close>

record env =
  getAmountsOut :: "int \<Rightarrow> router \<Rightarrow> int \<Rightarrow> address list \<Rightarrow> exn + nat list"
  provider_getGasPrice :: "int \<Rightarrow> exn + nat"
  checkArbitrageProfitability ::
    "int \<Rightarrow> arbitrage_data \<Rightarrow> int \<Rightarrow> bool \<Rightarrow> exn + nat list"
  token_decimals :: "int \<Rightarrow> address \<Rightarrow> exn + nat"
  token_symbol :: "int \<Rightarrow> address \<Rightarrow> exn + string"
  token_name :: "int \<Rightarrow> address \<Rightarrow> exn + string"
  elapse :: "int \<Rightarrow> int"

record price_entry =
  price :: rat
  timestamp :: int

record network_health =
  lastCheckTime :: int
  isHealthy :: bool
  failedAttempts :: nat
  gasPrice :: int

record fee_parameters =
  pancakeSwapFeeNumerator :: int
  pancakeSwapFeeDenominator :: int
  biswapFeeNumerator :: int
  biswapFeeDenominator :: int

record token_details =
  td_address :: address
  decimals :: nat
  symbol :: string
  td_name :: string

text \<open>
  The mutable fields of the service objects (\<^verbatim>\<open>PriceService\<close>, \<^verbatim>\<open>NetworkService\<close>,
  \<^verbatim>\<open>ProfitCalculator\<close>, \<^verbatim>\<open>TokenService\<close>) and the clock \<^verbatim>\<open>Date.now()\<close> reads. The price
  cache is keyed by \<^verbatim>\<open>`${tokenAddress}:USD`\<close>, that is by the token address.
\<close>

record bot_state =
  clock :: int
  bnbPrice :: rat
  lastUpdated :: int
  priceCache :: "address \<rightharpoonup> price_entry"
  networkHealth :: network_health
  feeParameters :: fee_parameters
  tokenCache :: "address \<rightharpoonup> token_details"

text \<open>
  An \<^verbatim>\<open>async\<close> method: from the state to its outcome (thrown or returned) and the
  state it leaves. \<open>bindJ\<close> is sequencing, where a throw skips the rest; \<open>tryCatch\<close> is
  \<^verbatim>\<open>try { ... } catch (error) { ... }\<close>; \<open>await\<close> is one awaited call to the chain.
\<close>

type_synonym 'a js = "bot_state \<Rightarrow> (exn + 'a) \<times> bot_state"

definition returnJ :: "'a \<Rightarrow> 'a js" where
  "returnJ x s = (Inr x, s)"

definition throwJ :: "exn \<Rightarrow> 'a js" where
  "throwJ e s = (Inl e, s)"

definition bindJ :: "'a js \<Rightarrow> ('a \<Rightarrow> 'b js) \<Rightarrow> 'b js" where
  "bindJ m f s = (case m s of (Inl e, s') \<Rightarrow> (Inl e, s') | (Inr x, s') \<Rightarrow> f x s')"

definition tryCatch :: "'a js \<Rightarrow> (exn \<Rightarrow> 'a js) \<Rightarrow> 'a js" where
  "tryCatch m h s = (case m s of (Inl e, s') \<Rightarrow> h e s' | (Inr x, s') \<Rightarrow> (Inr x, s'))"

definition liftJ :: "exn + 'a \<Rightarrow> 'a js" where
  "liftJ r s = (r, s)"

definition await :: "env \<Rightarrow> (int \<Rightarrow> exn + 'a) \<Rightarrow> 'a js" where
  "await e call s = (call (clock s), s\<lparr>clock := elapse e (clock s)\<rparr>)"

text \<open>\<^verbatim>\<open>await call.catch(() => null)\<close>\<close>

definition awaitOrNull :: "env \<Rightarrow> (int \<Rightarrow> exn + 'a) \<Rightarrow> 'a option js" where
  "awaitOrNull e call s =
     (Inr (case call (clock s) of Inl _ \<Rightarrow> None | Inr r \<Rightarrow> Some r),
      s\<lparr>clock := elapse e (clock s)\<rparr>)"

subsection \<open>The ethers helpers the code calls\<close>

text \<open>
  \<^verbatim>\<open>formatUnits\<close> and \<^verbatim>\<open>parseUnits\<close> accept 0 to 256 decimals and throw
  \<^verbatim>\<open>invalid decimal size\<close> otherwise. \<^verbatim>\<open>parseFloat(formatUnits(x, d))\<close> is \<open>x / 10\<^sup>d\<close>.
\<close>

definition formatUnits :: "int \<Rightarrow> nat \<Rightarrow> exn + rat" where
  "formatUnits x d =
     (if d \<le> 256 then Inr (of_int x / 10 ^ d) else Inl (Exn ''invalid decimal size''))"

text \<open>\<^verbatim>\<open>parseFloat(ethers.utils.formatEther(x))\<close>: 18 decimals, never throws.\<close>

definition formatEther :: "int \<Rightarrow> rat" where
  "formatEther x = of_int x / 10 ^ 18"

text \<open>
  \<^verbatim>\<open>ethers.utils.parseUnits(amount.toString(), d)\<close> for a number \<open>amount\<close>: the decimal
  string is scaled by \<open>10\<^sup>d\<close>; it throws when the decimals are out of range, when the
  value has more fractional digits than \<open>d\<close>, and when \<^verbatim>\<open>toString\<close> switches to exponent
  notation (magnitude from \<open>10\<^sup>2\<^sup>1\<close> on, or nonzero below \<open>10\<^sup>-\<^sup>6\<close>), which is not a
  decimal string.
\<close>

definition parseUnits :: "rat \<Rightarrow> nat \<Rightarrow> exn + int" where
  "parseUnits amount d =
     (if d > 256 then Inl (Exn ''invalid decimal size'')
      else if amount \<noteq> 0 \<and> (\<bar>amount\<bar> \<ge> 10 ^ 21 \<or> \<bar>amount\<bar> < 1 / 10 ^ 6)
        then Inl (Exn ''invalid decimal value'')
      else if of_int \<lfloor>amount * 10 ^ d\<rfloor> \<noteq> amount * 10 ^ d
        then Inl (Exn ''fractional component exceeds decimals'')
      else Inr \<lfloor>amount * 10 ^ d\<rfloor>)"

text \<open>
  \<^verbatim>\<open>BigNumber.from(k)\<close> for a JavaScript number \<open>k\<close> that is an integer: it throws
  \<^verbatim>\<open>overflow\<close> outside the safe range.
\<close>

definition BigNumber_from :: "int \<Rightarrow> exn + int" where
  "BigNumber_from k =
     (if k \<ge> 9007199254740991 \<or> k \<le> - 9007199254740991 then Inl (Exn ''overflow'')
      else Inr k)"

text \<open>\<^verbatim>\<open>a.div(b)\<close>: throws on a zero divisor, truncates towards zero otherwise.\<close>

definition tdiv :: "int \<Rightarrow> int \<Rightarrow> int" where
  "tdiv a b = (if (a < 0) = (b < 0) then \<bar>a\<bar> div \<bar>b\<bar> else - (\<bar>a\<bar> div \<bar>b\<bar>))"

definition bn_div :: "int \<Rightarrow> int \<Rightarrow> exn + int" where
  "bn_div a b = (if b = 0 then Inl (Exn ''division-by-zero'') else Inr (tdiv a b))"

section \<open>Network condition monitor (NetworkService)\<close>

text \<open>
  \<^verbatim>\<open>price.mul(Math.floor(multiplier * 100)).div(100)\<close>; \<^verbatim>\<open>mul\<close> converts its numeric
  argument with \<^verbatim>\<open>BigNumber.from\<close>.
\<close>

definition applyBuffer :: "int \<Rightarrow> rat \<Rightarrow> exn + int" where
  "applyBuffer p multiplier =
     (case BigNumber_from \<lfloor>multiplier * 100\<rfloor> of
        Inl e \<Rightarrow> Inl e
      | Inr k \<Rightarrow> bn_div (p * k) 100)"

text \<open>\<^verbatim>\<open>NetworkService.getGasPrice(multiplier)\<close>\<close>

definition getGasPrice :: "env \<Rightarrow> rat \<Rightarrow> int js" where
  "getGasPrice e multiplier =
     tryCatch
       (\<lambda>s. if clock s - lastCheckTime (networkHealth s) < 2 * 60 * 1000
            then (if multiplier > 1
                  then liftJ (applyBuffer (gasPrice (networkHealth s)) multiplier) s
                  else returnJ (gasPrice (networkHealth s)) s)
            else bindJ (await e (provider_getGasPrice e))
                   (\<lambda>g s1.
                      let s2 = s1\<lparr>networkHealth := (networkHealth s1)\<lparr>gasPrice := int g\<rparr>\<rparr>
                      in if multiplier > 1 then liftJ (applyBuffer (int g) multiplier) s2
                         else returnJ (int g) s2) s)
       (\<lambda>error s. returnJ (gasPrice (networkHealth s)) s)"

section \<open>Market data service (PriceService)\<close>

text \<open>\<^verbatim>\<open>PriceService.updateBnbPrice()\<close>: one WBNB quoted in BUSD on PancakeSwap.\<close>

definition updateBnbPrice :: "config \<Rightarrow> env \<Rightarrow> rat js" where
  "updateBnbPrice cfg e =
     tryCatch
       (bindJ (await e (\<lambda>t. getAmountsOut e t PancakeSwap (10 ^ 18) [WBNB cfg, BUSD cfg]))
          (\<lambda>amounts s.
             if length amounts < 2 then throwJ (Exn ''invalid BigNumber value'') s
             else returnJ (formatEther (int (amounts ! 1)))
                    (s\<lparr>bnbPrice := formatEther (int (amounts ! 1)),
                       lastUpdated := clock s\<rparr>)))
       (\<lambda>error s. returnJ (bnbPrice s) s)"

text \<open>
  \<^verbatim>\<open>if (Date.now() - this.lastUpdated > 10 * 60 * 1000) await this.updateBnbPrice()\<close>,
  as it stands in both the WBNB branch and the two-hop branch.
\<close>

definition refreshBnbPrice :: "config \<Rightarrow> env \<Rightarrow> unit js" where
  "refreshBnbPrice cfg e s =
     (if clock s - lastUpdated s > 10 * 60 * 1000
      then bindJ (updateBnbPrice cfg e) (\<lambda>_. returnJ ()) s
      else returnJ () s)"

definition isStablecoin :: "config \<Rightarrow> address \<Rightarrow> bool" where
  "isStablecoin cfg tokenAddress \<longleftrightarrow>
     tokenAddress = BUSD cfg \<or> tokenAddress = USDT cfg \<or> tokenAddress = USDC cfg
     \<or> tokenAddress = DAI cfg"

text \<open>\<^verbatim>\<open>this.priceCache.set(cacheKey, { price, timestamp: Date.now() }); return price\<close>\<close>

definition cacheAndReturn :: "address \<Rightarrow> rat \<Rightarrow> rat js" where
  "cacheAndReturn tokenAddress p s =
     returnJ p
       (s\<lparr>priceCache := (priceCache s)(tokenAddress \<mapsto> \<lparr>price = p, timestamp = clock s\<rparr>)\<rparr>)"

text \<open>The \<^verbatim>\<open>try\<close> block of \<^verbatim>\<open>getTokenPriceUSD\<close>.\<close>

definition getTokenPriceUSD_body :: "config \<Rightarrow> env \<Rightarrow> address \<Rightarrow> nat \<Rightarrow> rat js" where
  "getTokenPriceUSD_body cfg e tokenAddress dec =
     (if isStablecoin cfg tokenAddress then returnJ 1
      else if tokenAddress = WBNB cfg
        then bindJ (refreshBnbPrice cfg e) (\<lambda>_ s. returnJ (bnbPrice s) s)
      else
        bindJ (liftJ (parseUnits 1 dec)) (\<lambda>amountIn.
        bindJ (awaitOrNull e
                 (\<lambda>t. getAmountsOut e t PancakeSwap amountIn [tokenAddress, BUSD cfg]))
          (\<lambda>amounts.
        if amounts \<noteq> None \<and> length (the amounts) \<ge> 2
        then cacheAndReturn tokenAddress (formatEther (int (the amounts ! 1)))
        else
          bindJ (awaitOrNull e
                   (\<lambda>t. getAmountsOut e t PancakeSwap amountIn [tokenAddress, WBNB cfg]))
            (\<lambda>bnbAmounts.
          if bnbAmounts \<noteq> None \<and> length (the bnbAmounts) \<ge> 2
          then bindJ (refreshBnbPrice cfg e) (\<lambda>_ s.
                 cacheAndReturn tokenAddress
                   (formatEther (int (the bnbAmounts ! 1)) * bnbPrice s) s)
          else returnJ 0))))"

text \<open>
  \<^verbatim>\<open>PriceService.getTokenPriceUSD(tokenAddress, decimals)\<close>: the cache is consulted
  before the \<^verbatim>\<open>try\<close> block; the handler returns 0.
\<close>

definition getTokenPriceUSD :: "config \<Rightarrow> env \<Rightarrow> address \<Rightarrow> nat \<Rightarrow> rat js" where
  "getTokenPriceUSD cfg e tokenAddress dec s =
     (case priceCache s tokenAddress of
        Some cachedPrice \<Rightarrow>
          if clock s - timestamp cachedPrice < 5 * 60 * 1000
          then returnJ (price cachedPrice) s
          else tryCatch (getTokenPriceUSD_body cfg e tokenAddress dec)
                 (\<lambda>error. returnJ 0) s
      | None \<Rightarrow>
          tryCatch (getTokenPriceUSD_body cfg e tokenAddress dec) (\<lambda>error. returnJ 0) s)"

text \<open>\<^verbatim>\<open>PriceService.convertToUSD(amount, tokenAddress, decimals)\<close>\<close>

definition convertToUSD :: "config \<Rightarrow> env \<Rightarrow> int \<Rightarrow> address \<Rightarrow> nat \<Rightarrow> rat js" where
  "convertToUSD cfg e amount tokenAddress dec =
     bindJ (liftJ (formatUnits amount dec)) (\<lambda>amountFloat.
     bindJ (getTokenPriceUSD cfg e tokenAddress dec) (\<lambda>p.
     returnJ (amountFloat * p)))"

section \<open>Profitability evaluator (ProfitCalculator)\<close>

text \<open>
  The object \<^verbatim>\<open>calculateProfit\<close> returns on success, and the two shapes of its
  result: the evaluated fields, or \<^verbatim>\<open>{ isProfit: false, error: error.message }\<close>.
\<close>

record profit_fields =
  expectedProfit :: int
  expectedPlatformFee :: int
  expectedUserProfit :: int
  profitUSD :: rat
  netProfitUSD :: rat
  gasCostUSD :: rat
  loanAmountUSD :: rat
  profitPercentage :: rat
  isProfit :: bool

datatype profit_result = Profit profit_fields | ProfitError string

text \<open>
  \<^verbatim>\<open>loanAmount.mul(numerator).div(denominator).add(1)\<close> with the fee pair of the
  exchange the cycle starts on.
\<close>

definition flashLoanFee :: "fee_parameters \<Rightarrow> int \<Rightarrow> bool \<Rightarrow> exn + int" where
  "flashLoanFee fp loanAmount fromPancake =
     (case (if fromPancake
            then bn_div (loanAmount * pancakeSwapFeeNumerator fp) (pancakeSwapFeeDenominator fp)
            else bn_div (loanAmount * biswapFeeNumerator fp) (biswapFeeDenominator fp)) of
        Inl e \<Rightarrow> Inl e
      | Inr q \<Rightarrow> Inr (q + 1))"

text \<open>
  The \<^verbatim>\<open>try\<close> block of \<^verbatim>\<open>calculateProfit\<close>. Log lines are left out: their arguments
  were all computed before and cannot throw.
\<close>

definition calculateProfit_body ::
    "config \<Rightarrow> env \<Rightarrow> arbitrage_data \<Rightarrow> int \<Rightarrow> bool \<Rightarrow> token_details \<Rightarrow> profit_fields js" where
  "calculateProfit_body cfg e arbitrageData loanAmount fromPancake tokenADetails =
     bindJ (await e (\<lambda>t. checkArbitrageProfitability e t arbitrageData loanAmount fromPancake))
       (\<lambda>profitabilityResult.
     if length profitabilityResult \<noteq> 3
     then throwJ (Exn (''Invalid profitability result for '' @ symbol tokenADetails))
     else
     bindJ (getGasPrice e (11 / 10)) (\<lambda>gasPriceWei s.
       (let gasCostWei = gasPriceWei * GAS_LIMIT cfg;
            gasCostBNB = formatEther gasCostWei;
            gasCost = gasCostBNB * bnbPrice s
        in
        bindJ (liftJ (flashLoanFee (feeParameters s) loanAmount fromPancake)) (\<lambda>fee.
        bindJ (convertToUSD cfg e (int (profitabilityResult ! 2))
                 (td_address tokenADetails) (decimals tokenADetails)) (\<lambda>profit.
        bindJ (convertToUSD cfg e loanAmount
                 (td_address tokenADetails) (decimals tokenADetails)) (\<lambda>loanValue.
        (let net = profit - gasCost;
             pct = (if loanValue > 0 then (net / loanValue) * 100 else 0)
         in returnJ
              \<lparr> expectedProfit = int (profitabilityResult ! 0),
                expectedPlatformFee = int (profitabilityResult ! 1),
                expectedUserProfit = int (profitabilityResult ! 2),
                profitUSD = profit,
                netProfitUSD = net,
                gasCostUSD = gasCost,
                loanAmountUSD = loanValue,
                profitPercentage = pct,
                isProfit = (pct \<ge> MIN_PROFIT_PERCENTAGE cfg) \<rparr>))))) s))"

text \<open>\<^verbatim>\<open>ProfitCalculator.calculateProfit\<close>: the block above under its catch-all handler.\<close>

definition calculateProfit ::
    "config \<Rightarrow> env \<Rightarrow> arbitrage_data \<Rightarrow> int \<Rightarrow> bool \<Rightarrow> token_details \<Rightarrow> profit_result js" where
  "calculateProfit cfg e arbitrageData loanAmount fromPancake tokenADetails =
     tryCatch
       (bindJ (calculateProfit_body cfg e arbitrageData loanAmount fromPancake tokenADetails)
          (\<lambda>pf. returnJ (Profit pf)))
       (\<lambda>error. returnJ (ProfitError (message error)))"

text \<open>\<^verbatim>\<open>ProfitCalculator.isProfitable(profitResult)\<close>\<close>

fun isProfitable :: "config \<Rightarrow> profit_result \<Rightarrow> bool" where
  "isProfitable cfg (ProfitError msg) = False"
| "isProfitable cfg (Profit pf) =
     (isProfit pf \<and> profitPercentage pf \<ge> MIN_PROFIT_PERCENTAGE cfg)"

section \<open>Token metadata (TokenService)\<close>

text \<open>
  \<^verbatim>\<open>TokenService.getTokenDetails(tokenAddress)\<close>: cached details, or the three contract
  reads (\<^verbatim>\<open>name()\<close> falls back to the symbol), or the 18-decimals default, which is
  not cached.
\<close>

definition getTokenDetails :: "env \<Rightarrow> address \<Rightarrow> token_details js" where
  "getTokenDetails e tokenAddress s =
     (case tokenCache s tokenAddress of
        Some details \<Rightarrow> returnJ details s
      | None \<Rightarrow>
          tryCatch
            (bindJ (await e (\<lambda>t. token_decimals e t tokenAddress)) (\<lambda>dec.
             bindJ (await e (\<lambda>t. token_symbol e t tokenAddress)) (\<lambda>sym.
             bindJ (awaitOrNull e (\<lambda>t. token_name e t tokenAddress)) (\<lambda>nm s1.
               (let details = \<lparr> td_address = tokenAddress, decimals = dec, symbol = sym,
                                td_name = (case nm of None \<Rightarrow> sym | Some n \<Rightarrow> n) \<rparr>
                in returnJ details
                     (s1\<lparr>tokenCache := (tokenCache s1)(tokenAddress \<mapsto> details)\<rparr>))))))
            (\<lambda>error. returnJ \<lparr> td_address = tokenAddress, decimals = 18,
                                symbol = ''UNKNOWN'', td_name = ''Unknown Token'' \<rparr>) s)"

section \<open>Triangular arbitrage scanner (ArbitrageChecker)\<close>

text \<open>
  A configured triple of \<^verbatim>\<open>config/pairs.js\<close>. Objects are lists of key and value in
  insertion order, the order \<^verbatim>\<open>Object.keys\<close> and \<^verbatim>\<open>for ... in\<close> follow; a pair address
  may be \<^verbatim>\<open>null\<close>; \<^verbatim>\<open>testAmounts\<close> may be absent.
\<close>

record pair_config =
  pc_name :: string
  tokens :: "(string \<times> address) list"
  pancakeswapPairs :: "(string \<times> address option) list"
  biswapPairs :: "(string \<times> address option) list"
  priority :: nat
  testAmounts :: "rat list option"

record swap_outputs =
  amountOut1 :: int
  amountOut2 :: int
  amountOut3 :: int
  so_loanAmount :: int

record opportunity =
  opp_pairConfig :: pair_config
  flashLoanPair :: address
  opp_tokenA :: address
  opp_tokenB :: address
  opp_tokenC :: address
  opp_tokenADetails :: token_details
  opp_tokenBDetails :: token_details
  opp_tokenCDetails :: token_details
  opp_loanAmount :: int
  opp_arbitrageData :: arbitrage_data
  profitResult :: profit_fields
  opp_direction :: bool
  directionReversed :: bool
  priceGap :: rat

text \<open>
  The loop of \<^verbatim>\<open>checkTriangularPrice\<close>: one quote per consecutive pair of the path,
  each output the next input; \<^verbatim>\<open>null\<close> on a short answer.
\<close>

fun triangularPriceLoop :: "env \<Rightarrow> router \<Rightarrow> int \<Rightarrow> address list \<Rightarrow> int option js" where
  "triangularPriceLoop e r amountOut (a # b # rest) s =
     (case await e (\<lambda>t. getAmountsOut e t r amountOut [a, b]) s of
        (Inl err, s') \<Rightarrow> (Inl err, s')
      | (Inr amounts, s') \<Rightarrow>
          if length amounts < 2 then (Inr None, s')
          else triangularPriceLoop e r (int (amounts ! 1)) (b # rest) s')"
| "triangularPriceLoop e r amountOut path s = (Inr (Some amountOut), s)"

definition checkTriangularPrice :: "env \<Rightarrow> router \<Rightarrow> int \<Rightarrow> address list \<Rightarrow> int option js" where
  "checkTriangularPrice e r amountIn path =
     tryCatch (triangularPriceLoop e r amountIn path) (\<lambda>error. returnJ None)"

text \<open>\<^verbatim>\<open>ArbitrageChecker.checkPriceGap(tokenA, tokenB, tokenC, tokenADetails)\<close>\<close>

definition checkPriceGap ::
    "env \<Rightarrow> address \<Rightarrow> address \<Rightarrow> address \<Rightarrow> token_details \<Rightarrow> rat js" where
  "checkPriceGap e tokenA tokenB tokenC tokenADetails =
     tryCatch
       (bindJ (liftJ (parseUnits 1 (decimals tokenADetails))) (\<lambda>testAmount.
        bindJ (checkTriangularPrice e PancakeSwap testAmount [tokenA, tokenB, tokenC, tokenA])
          (\<lambda>pancakePrice.
        bindJ (checkTriangularPrice e BiSwap testAmount [tokenA, tokenB, tokenC, tokenA])
          (\<lambda>biswapPrice.
        if pancakePrice \<noteq> None \<and> biswapPrice \<noteq> None \<and> the pancakePrice \<noteq> 0
        then bindJ (liftJ (bn_div (\<bar>the pancakePrice - the biswapPrice\<bar> * 100)
                             (the pancakePrice)))
               (\<lambda>percentageDiff. returnJ (of_int percentageDiff))
        else returnJ 0))))
       (\<lambda>error. returnJ 0)"

text \<open>
  \<^verbatim>\<open>if (priceGap >= 5.0) direction = !direction\<close>: the direction the rotation is
  evaluated in.
\<close>

definition chosenDirection :: "rat \<Rightarrow> bool \<Rightarrow> bool" where
  "chosenDirection gap requested = (if gap \<ge> 5 then \<not> requested else requested)"

text \<open>\<^verbatim>\<open>key.split('-')\<close>\<close>

fun splitOn :: "char \<Rightarrow> string \<Rightarrow> string list" where
  "splitOn c [] = [[]]"
| "splitOn c (x # xs) =
     (if x = c then [] # splitOn c xs
      else (case splitOn c xs of [] \<Rightarrow> [[x]] | w # ws \<Rightarrow> (x # w) # ws))"

text \<open>\<^verbatim>\<open>pairConfig.tokens[key]\<close>, where \<open>key\<close> may be \<^verbatim>\<open>undefined\<close>.\<close>

definition lookupToken :: "pair_config \<Rightarrow> string option \<Rightarrow> address option" where
  "lookupToken pairConfig key =
     (case key of None \<Rightarrow> None | Some k \<Rightarrow> map_of (tokens pairConfig) k)"

definition nthOpt :: "'a list \<Rightarrow> nat \<Rightarrow> 'a option" where
  "nthOpt xs i = (if i < length xs then Some (xs ! i) else None)"

text \<open>
  The \<^verbatim>\<open>for (const key in pairs)\<close> loop: the value under the first key whose two
  symbols name tokenA and tokenB in either order (the loop breaks there, whatever the
  value is).
\<close>

fun findFlashLoanPair ::
    "pair_config \<Rightarrow> address \<Rightarrow> address \<Rightarrow> (string \<times> address option) list \<Rightarrow> address option" where
  "findFlashLoanPair pairConfig tokenA tokenB [] = None"
| "findFlashLoanPair pairConfig tokenA tokenB ((key, pairAddress) # rest) =
     (let parts = splitOn CHR ''-'' key;
          token1 = lookupToken pairConfig (nthOpt parts 0);
          token2 = lookupToken pairConfig (nthOpt parts 1)
      in if (token1 = Some tokenA \<and> token2 = Some tokenB)
            \<or> (token1 = Some tokenB \<and> token2 = Some tokenA)
         then pairAddress
         else findFlashLoanPair pairConfig tokenA tokenB rest)"

text \<open>\<^verbatim>\<open>symbol.includes('USD')\<close>\<close>

fun str_includes :: "string \<Rightarrow> string \<Rightarrow> bool" where
  "str_includes [] needle = (needle = [])"
| "str_includes (x # xs) needle =
     (take (length needle) (x # xs) = needle \<or> str_includes xs needle)"

definition effectiveTestAmounts :: "pair_config \<Rightarrow> token_details \<Rightarrow> rat list" where
  "effectiveTestAmounts pairConfig tokenADetails =
     (case testAmounts pairConfig of
        Some amounts \<Rightarrow> amounts
      | None \<Rightarrow>
          if str_includes (symbol tokenADetails) ''USD'' then [1000, 10000, 50000, 100000]
          else [1 / 2, 1, 2, 5])"

text \<open>\<^verbatim>\<open>testAmounts.map(amount => parseUnits(amount.toString(), decimals))\<close>\<close>

fun parseLoanAmounts :: "rat list \<Rightarrow> nat \<Rightarrow> exn + int list" where
  "parseLoanAmounts [] dec = Inr []"
| "parseLoanAmounts (amount # rest) dec =
     (case parseUnits amount dec of
        Inl e \<Rightarrow> Inl e
      | Inr v \<Rightarrow> (case parseLoanAmounts rest dec of Inl e \<Rightarrow> Inl e | Inr vs \<Rightarrow> Inr (v # vs)))"

text \<open>
  One \<^verbatim>\<open>try\<close> block of \<^verbatim>\<open>calculateSwapOutputs\<close>: the quote and the log line that
  formats the output with the decimals of the token received; any throw ends in
  \<^verbatim>\<open>{ success: false }\<close>, here \<open>None\<close>.
\<close>

definition swapHop :: "env \<Rightarrow> router \<Rightarrow> int \<Rightarrow> address list \<Rightarrow> nat \<Rightarrow> int option js" where
  "swapHop e r amountIn path decOut =
     tryCatch
       (bindJ (await e (\<lambda>t. getAmountsOut e t r amountIn path)) (\<lambda>amounts.
        if length amounts < 2 then returnJ None
        else bindJ (liftJ (formatUnits (int (amounts ! 1)) decOut))
               (\<lambda>_. returnJ (Some (int (amounts ! 1))))))
       (\<lambda>error. returnJ None)"

text \<open>
  \<^verbatim>\<open>ArbitrageChecker.calculateSwapOutputs\<close>: hops 1 and 3 on the starting exchange,
  hop 2 on the other. The first log line formats the loan amount outside any
  \<^verbatim>\<open>try\<close>. The final check for undefined outputs cannot fire on \<^verbatim>\<open>BigNumber\<close> objects.
\<close>

definition calculateSwapOutputs ::
    "env \<Rightarrow> bool \<Rightarrow> int \<Rightarrow> address list \<Rightarrow> address list \<Rightarrow> address list \<Rightarrow>
     token_details \<Rightarrow> token_details \<Rightarrow> token_details \<Rightarrow> swap_outputs option js" where
  "calculateSwapOutputs e dir loanAmount p1 p2 p3 tokenADetails tokenBDetails tokenCDetails =
     bindJ (liftJ (formatUnits loanAmount (decimals tokenADetails))) (\<lambda>_.
     bindJ (swapHop e (if dir then PancakeSwap else BiSwap) loanAmount p1
              (decimals tokenBDetails)) (\<lambda>out1.
     case out1 of None \<Rightarrow> returnJ None | Some o1 \<Rightarrow>
     bindJ (swapHop e (if dir then BiSwap else PancakeSwap) o1 p2
              (decimals tokenCDetails)) (\<lambda>out2.
     case out2 of None \<Rightarrow> returnJ None | Some o2 \<Rightarrow>
     bindJ (swapHop e (if dir then PancakeSwap else BiSwap) o2 p3
              (decimals tokenADetails)) (\<lambda>out3.
     case out3 of None \<Rightarrow> returnJ None | Some o3 \<Rightarrow>
     returnJ (Some \<lparr> amountOut1 = o1, amountOut2 = o2, amountOut3 = o3,
                     so_loanAmount = loanAmount \<rparr>)))))"

text \<open>\<^verbatim>\<open>amountOut.mul(99).div(100)\<close>: the minimum output at 1% slippage.\<close>

definition minAmountOut :: "int \<Rightarrow> int" where
  "minAmountOut amountOut = tdiv (amountOut * 99) 100"

text \<open>The four \<^verbatim>\<open>best...\<close> variables of the sweep, with their initial values.\<close>

record sweep_best =
  bestResult :: "swap_outputs option"
  bestLoanAmount :: int
  bestMinAmountsOut :: "int list"
  bestProfitResult :: "profit_fields option"

definition initialBest :: sweep_best where
  "initialBest = \<lparr> bestResult = None, bestLoanAmount = 0, bestMinAmountsOut = [0, 0, 0],
                   bestProfitResult = None \<rparr>"

text \<open>
  The update at the end of one round of the sweep:
  \<^verbatim>\<open>isProfitable(profitResult) && (!bestProfitResult || profitResult.profitPercentage >
  bestProfitResult.profitPercentage)\<close>.
\<close>

definition updateBest ::
    "config \<Rightarrow> sweep_best \<Rightarrow> swap_outputs \<Rightarrow> int \<Rightarrow> int list \<Rightarrow> profit_result \<Rightarrow> sweep_best" where
  "updateBest cfg best result loanAmount mins pr =
     (case pr of
        ProfitError msg \<Rightarrow> best
      | Profit pf \<Rightarrow>
          if isProfitable cfg pr
             \<and> (bestProfitResult best = None
                \<or> profitPercentage pf > profitPercentage (the (bestProfitResult best)))
          then \<lparr> bestResult = Some result, bestLoanAmount = loanAmount,
                 bestMinAmountsOut = mins, bestProfitResult = Some pf \<rparr>
          else best)"

text \<open>\<^verbatim>\<open>for (const loanAmount of loanAmounts) { ... }\<close>\<close>

fun sweepLoanAmounts ::
    "config \<Rightarrow> env \<Rightarrow> bool \<Rightarrow> address list \<Rightarrow> address list \<Rightarrow> address list \<Rightarrow>
     token_details \<Rightarrow> token_details \<Rightarrow> token_details \<Rightarrow> int list \<Rightarrow> sweep_best \<Rightarrow>
     sweep_best js" where
  "sweepLoanAmounts cfg e dir p1 p2 p3 dA dB dC [] best s = (Inr best, s)"
| "sweepLoanAmounts cfg e dir p1 p2 p3 dA dB dC (loanAmount # rest) best s =
     (case calculateSwapOutputs e dir loanAmount p1 p2 p3 dA dB dC s of
        (Inl err, s1) \<Rightarrow> (Inl err, s1)
      | (Inr None, s1) \<Rightarrow> sweepLoanAmounts cfg e dir p1 p2 p3 dA dB dC rest best s1
      | (Inr (Some result), s1) \<Rightarrow>
          (let minAmountOut1 = minAmountOut (amountOut1 result);
               minAmountOut2 = minAmountOut (amountOut2 result);
               minAmountOut3 = minAmountOut (amountOut3 result)
           in if minAmountOut1 = 0 \<or> minAmountOut2 = 0 \<or> minAmountOut3 = 0
              then sweepLoanAmounts cfg e dir p1 p2 p3 dA dB dC rest best s1
              else
                (case calculateProfit cfg e
                        \<lparr> path1 = p1, path2 = p2, path3 = p3,
                          minAmountsOut = [minAmountOut1, minAmountOut2, minAmountOut3],
                          ad_direction = dir \<rparr>
                        loanAmount dir dA s1 of
                   (Inl err, s2) \<Rightarrow> (Inl err, s2)
                 | (Inr pr, s2) \<Rightarrow>
                     sweepLoanAmounts cfg e dir p1 p2 p3 dA dB dC rest
                       (updateBest cfg best result loanAmount
                          [minAmountOut1, minAmountOut2, minAmountOut3] pr) s2)))"

text \<open>
  The \<^verbatim>\<open>try\<close> block of \<^verbatim>\<open>checkArbitrageLoop\<close>. The three paths are two-element
  arrays, so the path check of the source never fails and is left out.
\<close>

definition checkArbitrageLoop_body ::
    "config \<Rightarrow> env \<Rightarrow> pair_config \<Rightarrow> address \<Rightarrow> address \<Rightarrow> address \<Rightarrow> bool \<Rightarrow>
     opportunity option js" where
  "checkArbitrageLoop_body cfg e pairConfig tokenA tokenB tokenC requested =
     bindJ (getTokenDetails e tokenA) (\<lambda>tokenADetails.
     bindJ (getTokenDetails e tokenB) (\<lambda>tokenBDetails.
     bindJ (getTokenDetails e tokenC) (\<lambda>tokenCDetails.
     bindJ (checkPriceGap e tokenA tokenB tokenC tokenADetails) (\<lambda>gap.
     (let dir = chosenDirection gap requested;
          p1 = [tokenA, tokenB]; p2 = [tokenB, tokenC]; p3 = [tokenC, tokenA];
          pairFound = findFlashLoanPair pairConfig tokenA tokenB
                        (if dir then pancakeswapPairs pairConfig else biswapPairs pairConfig)
      in if pairFound = None \<or> pairFound = Some [] then returnJ None
         else
           bindJ (liftJ (parseLoanAmounts (effectiveTestAmounts pairConfig tokenADetails)
                          (decimals tokenADetails))) (\<lambda>loanAmounts.
           bindJ (sweepLoanAmounts cfg e dir p1 p2 p3
                    tokenADetails tokenBDetails tokenCDetails loanAmounts initialBest)
             (\<lambda>best.
           case bestProfitResult best of
             None \<Rightarrow> returnJ None
           | Some pf \<Rightarrow>
               if isProfitable cfg (Profit pf)
               then returnJ (Some
                 \<lparr> opp_pairConfig = pairConfig,
                   flashLoanPair = the pairFound,
                   opp_tokenA = tokenA, opp_tokenB = tokenB, opp_tokenC = tokenC,
                   opp_tokenADetails = tokenADetails,
                   opp_tokenBDetails = tokenBDetails,
                   opp_tokenCDetails = tokenCDetails,
                   opp_loanAmount = bestLoanAmount best,
                   opp_arbitrageData =
                     \<lparr> path1 = p1, path2 = p2, path3 = p3,
                       minAmountsOut = bestMinAmountsOut best, ad_direction = dir \<rparr>,
                   profitResult = pf,
                   opp_direction = dir,
                   directionReversed = (requested \<noteq> dir),
                   priceGap = gap \<rparr>)
               else returnJ None)))))))"

text \<open>\<^verbatim>\<open>ArbitrageChecker.checkArbitrageLoop\<close>: the block under its catch-all handler.\<close>

definition checkArbitrageLoop ::
    "config \<Rightarrow> env \<Rightarrow> pair_config \<Rightarrow> address \<Rightarrow> address \<Rightarrow> address \<Rightarrow> bool \<Rightarrow>
     opportunity option js" where
  "checkArbitrageLoop cfg e pairConfig tokenA tokenB tokenC requested =
     tryCatch (checkArbitrageLoop_body cfg e pairConfig tokenA tokenB tokenC requested)
       (\<lambda>error. returnJ None)"

text \<open>\<^verbatim>\<open>Object.keys(pairConfig.tokens)\<close> and \<^verbatim>\<open>tokens[tokenKeys[i % n]]\<close>.\<close>

definition tokenKeys :: "pair_config \<Rightarrow> string list" where
  "tokenKeys pairConfig = map fst (tokens pairConfig)"

definition tokenAt :: "pair_config \<Rightarrow> nat \<Rightarrow> address" where
  "tokenAt pairConfig i =
     the (map_of (tokens pairConfig)
            (tokenKeys pairConfig ! (i mod length (tokenKeys pairConfig))))"

text \<open>
  The loop of \<^verbatim>\<open>checkTriangularArbitrage\<close> over the rotations \<open>i\<close>, \<open>i + 1\<close>, \<open>i + 2\<close>
  of the token keys.
\<close>

fun checkRotations ::
    "config \<Rightarrow> env \<Rightarrow> pair_config \<Rightarrow> bool \<Rightarrow> nat list \<Rightarrow> opportunity list js" where
  "checkRotations cfg e pairConfig requested [] s = (Inr [], s)"
| "checkRotations cfg e pairConfig requested (i # rest) s =
     (case checkArbitrageLoop cfg e pairConfig (tokenAt pairConfig i)
             (tokenAt pairConfig (i + 1)) (tokenAt pairConfig (i + 2)) requested s of
        (Inl err, s1) \<Rightarrow> (Inl err, s1)
      | (Inr found, s1) \<Rightarrow>
          (case checkRotations cfg e pairConfig requested rest s1 of
             (Inl err, s2) \<Rightarrow> (Inl err, s2)
           | (Inr others, s2) \<Rightarrow>
               (Inr ((case found of None \<Rightarrow> [] | Some opp \<Rightarrow> [opp]) @ others), s2)))"

definition checkTriangularArbitrage ::
    "config \<Rightarrow> env \<Rightarrow> pair_config \<Rightarrow> bool \<Rightarrow> opportunity list js" where
  "checkTriangularArbitrage cfg e pairConfig requested =
     checkRotations cfg e pairConfig requested [0..<length (tokenKeys pairConfig)]"

text \<open>
  The loop of \<^verbatim>\<open>checkArbitrageOpportunities\<close> over the configured triples: both base
  directions of each, in order.
\<close>

fun checkPairs :: "config \<Rightarrow> env \<Rightarrow> pair_config list \<Rightarrow> opportunity list js" where
  "checkPairs cfg e [] s = (Inr [], s)"
| "checkPairs cfg e (pair # rest) s =
     (case checkTriangularArbitrage cfg e pair True s of
        (Inl err, s1) \<Rightarrow> (Inl err, s1)
      | (Inr pancakeToBiswap, s1) \<Rightarrow>
          (case checkTriangularArbitrage cfg e pair False s1 of
             (Inl err, s2) \<Rightarrow> (Inl err, s2)
           | (Inr biswapToPancake, s2) \<Rightarrow>
               (case checkPairs cfg e rest s2 of
                  (Inl err, s3) \<Rightarrow> (Inl err, s3)
                | (Inr others, s3) \<Rightarrow> (Inr (pancakeToBiswap @ biswapToPancake @ others), s3))))"

text \<open>
  \<^verbatim>\<open>ArbitrageChecker.checkArbitrageOpportunities(tokenPairs)\<close>: the collected
  opportunities, sorted by descending profit percentage (the sort is stable).
\<close>

definition checkArbitrageOpportunities ::
    "config \<Rightarrow> env \<Rightarrow> pair_config list \<Rightarrow> opportunity list js" where
  "checkArbitrageOpportunities cfg e tokenPairs =
     bindJ (checkPairs cfg e tokenPairs) (\<lambda>opportunities.
     returnJ (sort_key (\<lambda>opp. - profitPercentage (profitResult opp)) opportunities))"

section \<open>Scan coordinator (ArbitrageBot)\<close>


text \<open>How the \<^verbatim>\<open>try\<close> block of a cycle ends; every way leads to \<^verbatim>\<open>finally\<close>.\<close>

datatype cycle_end = NetworkNotReady | ContractPaused | ScanCompleted | ScanThrew









section \<open>Initial state, invariants and example inputs\<close>

text \<open>
  The state the constructors leave: BNB price 300, nothing cached, the default fee
  pairs 25/9975 and 20/9980, and a stored gas price parsed from the configured
  \<^verbatim>\<open>GAS_PRICE_GWEI\<close> (a parameter here).
\<close>

definition initial_state :: "int \<Rightarrow> int \<Rightarrow> bot_state" where
  "initial_state now defaultGasPrice =
     \<lparr> clock = now, bnbPrice = 300, lastUpdated = 0, priceCache = Map.empty,
       networkHealth = \<lparr> lastCheckTime = 0, isHealthy = True, failedAttempts = 0,
                         gasPrice = defaultGasPrice \<rparr>,
       feeParameters = \<lparr> pancakeSwapFeeNumerator = 25, pancakeSwapFeeDenominator = 9975,
                         biswapFeeNumerator = 20, biswapFeeDenominator = 9980 \<rparr>,
       tokenCache = Map.empty \<rparr>"


text \<open>No entry for the token, or one that is 5 minutes old or older.\<close>

definition staleOrAbsent :: "bot_state \<Rightarrow> address \<Rightarrow> bool" where
  "staleOrAbsent s tok \<longleftrightarrow>
     (case priceCache s tok of
        None \<Rightarrow> True
      | Some c \<Rightarrow> \<not> clock s - timestamp c < 5 * 60 * 1000)"

text \<open>A router answer the code accepts: resolved, with at least two amounts.\<close>

definition quoteOk :: "exn + nat list \<Rightarrow> bool" where
  "quoteOk q \<longleftrightarrow> (case q of Inl _ \<Rightarrow> False | Inr amounts \<Rightarrow> length amounts \<ge> 2)"


text \<open>
  Example inputs. The configuration has threshold 1% and a gas limit of one million.
  In \<open>example_env\<close> CAKE is quoted at 2 BUSD, BSW only against WBNB (0.01 WBNB), the
  gas price sample is 9090909091 wei, and the profitability call answers profit 12,
  platform fee 2 and user profit 10 (18 decimals); every awaited call takes 40 ms.
\<close>

definition example_config :: config where
  "example_config =
     \<lparr> MIN_PROFIT_PERCENTAGE = 1, GAS_LIMIT = 1000000, WBNB = ''wbnb'', BUSD = ''busd'',
       USDT = ''usdt'', USDC = ''usdc'', DAI = ''dai'' \<rparr>"

definition example_env :: env where
  "example_env =
     \<lparr> getAmountsOut =
         (\<lambda>t r amountIn path.
            if path = [''cake'', ''busd''] then Inr [nat amountIn, 2 * 10 ^ 18]
            else if path = [''bsw'', ''wbnb''] then Inr [nat amountIn, 10 ^ 16]
            else Inl (Exn ''INSUFFICIENT_LIQUIDITY'')),
       provider_getGasPrice = (\<lambda>t. Inr 9090909091),
       checkArbitrageProfitability =
         (\<lambda>t d loanAmount fromPancake. Inr [12 * 10 ^ 18, 2 * 10 ^ 18, 10 * 10 ^ 18]),
       token_decimals = (\<lambda>t a. Inr 18),
       token_symbol = (\<lambda>t a. Inr a),
       token_name = (\<lambda>t a. Inr a),
       elapse = (\<lambda>t. t + 40) \<rparr>"


text \<open>The fee denominator \<^verbatim>\<open>calculateProfit\<close> divides by: that of the starting exchange.\<close>

definition feeDenominator :: "fee_parameters \<Rightarrow> bool \<Rightarrow> int" where
  "feeDenominator fp fromPancake =
     (if fromPancake then pancakeSwapFeeDenominator fp else biswapFeeDenominator fp)"

text \<open>Two states that agree on every field except the fee pairs.\<close>

definition feeEquiv :: "bot_state \<Rightarrow> bot_state \<Rightarrow> bool" where
  "feeEquiv s t \<longleftrightarrow> s\<lparr>feeParameters := feeParameters t\<rparr> = t"

text \<open>
  A method whose outcome does not depend on the fee pairs, and whose final states agree
  except for them whenever its initial states do.
\<close>

definition ignoresFees :: "'a js \<Rightarrow> bool" where
  "ignoresFees m \<longleftrightarrow>
     (\<forall>s t. feeEquiv s t \<longrightarrow> fst (m s) = fst (m t) \<and> feeEquiv (snd (m s)) (snd (m t)))"

text \<open>
  A candidate starting with BUSD, its token details, and the constructor's state with
  the BNB rate set to 200.
\<close>

definition example_data :: arbitrage_data where
  "example_data = \<lparr> path1 = [''busd'', ''wbnb''], path2 = [''wbnb'', ''cake''],
      path3 = [''cake'', ''busd''], minAmountsOut = [1, 1, 1], ad_direction = True \<rparr>"

definition busd_details :: token_details where
  "busd_details = \<lparr> td_address = ''busd'', decimals = 18, symbol = ''BUSD'', td_name = ''BUSD Token'' \<rparr>"

definition profit_state :: bot_state where
  "profit_state = (initial_state 1000000 1000)\<lparr>bnbPrice := 200\<rparr>"

text \<open>
  What the sweep keeps true of its best candidate: once one is recorded it is
  profitable, its hop outputs come from a simulation of its loan amount, and its three
  minimum outputs are the 99% values of those outputs, all positive.
\<close>

definition validBest ::
    "config \<Rightarrow> env \<Rightarrow> bool \<Rightarrow> address list \<Rightarrow> address list \<Rightarrow> address list \<Rightarrow>
     token_details \<Rightarrow> token_details \<Rightarrow> token_details \<Rightarrow> sweep_best \<Rightarrow> bool" where
  "validBest cfg e dir p1 p2 p3 dA dB dC best \<longleftrightarrow>
     (case bestProfitResult best of
        None \<Rightarrow> True
      | Some pf \<Rightarrow>
          isProfitable cfg (Profit pf)
          \<and> (\<exists>result s0 s1.
                calculateSwapOutputs e dir (bestLoanAmount best) p1 p2 p3 dA dB dC s0
                  = (Inr (Some result), s1)
              \<and> bestResult best = Some result
              \<and> bestMinAmountsOut best =
                  [minAmountOut (amountOut1 result), minAmountOut (amountOut2 result),
                   minAmountOut (amountOut3 result)]
              \<and> 0 < minAmountOut (amountOut1 result)
              \<and> 0 < minAmountOut (amountOut2 result)
              \<and> 0 < minAmountOut (amountOut3 result)))"

text \<open>The same for a returned opportunity.\<close>

definition validOpportunity :: "config \<Rightarrow> env \<Rightarrow> opportunity \<Rightarrow> bool" where
  "validOpportunity cfg e opp \<longleftrightarrow>
     isProfit (profitResult opp)
     \<and> MIN_PROFIT_PERCENTAGE cfg \<le> profitPercentage (profitResult opp)
     \<and> (\<exists>result s0 s1.
           calculateSwapOutputs e (opp_direction opp) (opp_loanAmount opp)
             (path1 (opp_arbitrageData opp)) (path2 (opp_arbitrageData opp))
             (path3 (opp_arbitrageData opp))
             (opp_tokenADetails opp) (opp_tokenBDetails opp) (opp_tokenCDetails opp) s0
             = (Inr (Some result), s1)
         \<and> minAmountsOut (opp_arbitrageData opp) =
             [minAmountOut (amountOut1 result), minAmountOut (amountOut2 result),
              minAmountOut (amountOut3 result)]
         \<and> 0 < minAmountOut (amountOut1 result)
         \<and> 0 < minAmountOut (amountOut2 result)
         \<and> 0 < minAmountOut (amountOut3 result))"


text \<open>Example worlds for the scanner. A token with 18 decimals, named by its address:\<close>

definition token18 :: "address \<Rightarrow> token_details" where
  "token18 a = \<lparr> td_address = a, decimals = 18, symbol = a, td_name = a \<rparr>"

text \<open>
  Routers that always quote: PancakeSwap pays 101% of the input and BiSwap 102%, so a
  cycle ends above its loan and the two cycle prices are 2% apart.
\<close>

definition scan_env :: env where
  "scan_env = example_env
     \<lparr> getAmountsOut :=
         (\<lambda>t r amountIn path.
            Inr [nat amountIn,
                 nat (amountIn * (if r = PancakeSwap then 101 else 102) div 100)]) \<rparr>"

text \<open>A configured triple with one flash loan pair and the single loan amount 100.\<close>

definition scan_pair :: pair_config where
  "scan_pair =
     \<lparr> pc_name = ''BUSD-WBNB-CAKE'',
       tokens = [(''BUSD'', ''busd''), (''WBNB'', ''wbnb''), (''CAKE'', ''cake'')],
       pancakeswapPairs = [(''BUSD-WBNB'', Some ''0xPAIR'')],
       biswapPairs = [(''BUSD-WBNB'', None)],
       priority = 1,
       testAmounts = Some [100] \<rparr>"


text \<open>Routers that pay one unit for any input: every 99% minimum is zero.\<close>

definition dust_env :: env where
  "dust_env = example_env \<lparr> getAmountsOut := (\<lambda>t r amountIn path. Inr [nat amountIn, 1]) \<rparr>"



section \<open>Properties of the endpoint pool\<close>

lemma rpc_wf_init: "rpc_wf (rpc_init primary backups)"
  by (simp add: rpc_wf_def rpc_init_def)

lemma findProvider_None:
  "findProvider m now i = None \<Longrightarrow> i \<le> j \<Longrightarrow> j < providers_length m
     \<Longrightarrow> \<not> qualifies m now (rotation m j)"
proof (induction m now i rule: findProvider.induct)
  case (1 m now i)
  from "1.prems" have lt: "i < providers_length m" by simp
  from "1.prems"(1) lt have nq: "\<not> qualifies m now (rotation m i)"
    by (subst (asm) findProvider.simps) (simp split: if_splits)
  from "1.prems"(1) lt nq have rest: "findProvider m now (i + 1) = None"
    by (subst (asm) findProvider.simps) simp
  show ?case
  proof (cases "j = i")
    case True
    with nq show ?thesis by simp
  next
    case False
    with "1.prems" have "i + 1 \<le> j" by simp
    with "1.IH" [OF lt nq rest] "1.prems" show ?thesis by simp
  qed
qed

lemma findProvider_Some:
  "findProvider m now i = Some idx \<Longrightarrow>
     \<exists>k. i \<le> k \<and> k < providers_length m \<and> idx = rotation m k \<and> qualifies m now idx
        \<and> (\<forall>j. i \<le> j \<and> j < k \<longrightarrow> \<not> qualifies m now (rotation m j))"
proof (induction m now i rule: findProvider.induct)
  case (1 m now i)
  from "1.prems" have lt: "i < providers_length m"
    by (subst (asm) findProvider.simps) (simp split: if_splits)
  show ?case
  proof (cases "qualifies m now (rotation m i)")
    case True
    with "1.prems" lt have "idx = rotation m i"
      by (subst (asm) findProvider.simps) simp
    with True lt show ?thesis by (intro exI [of _ i]) auto
  next
    case False
    with "1.prems" lt have rest: "findProvider m now (i + 1) = Some idx"
      by (subst (asm) findProvider.simps) simp
    from "1.IH" [OF lt False rest] obtain k where
      k: "i + 1 \<le> k" "k < providers_length m" "idx = rotation m k" "qualifies m now idx"
         "\<forall>j. i + 1 \<le> j \<and> j < k \<longrightarrow> \<not> qualifies m now (rotation m j)"
      by blast
    have "\<forall>j. i \<le> j \<and> j < k \<longrightarrow> \<not> qualifies m now (rotation m j)"
    proof (intro allI impI)
      fix j assume j: "i \<le> j \<and> j < k"
      show "\<not> qualifies m now (rotation m j)"
      proof (cases "j = i")
        case True with False show ?thesis by simp
      next
        case False with j k(5) show ?thesis by simp
      qed
    qed
    with k show ?thesis by (intro exI [of _ k]) simp
  qed
qed

lemma rotation_surj:
  assumes "rpc_wf m" "idx < providers_length m"
  shows "\<exists>j < providers_length m. rotation m j = idx"
proof -
  let ?n = "providers_length m"
  let ?c = "currentIndex m"
  from assms have n: "0 < ?n" and c: "?c < ?n"
    by (simp_all add: rpc_wf_def providers_length_def)
  let ?j = "(idx + ?n - ?c - 1) mod ?n"
  have "?j < ?n" using n by simp
  moreover have "rotation m ?j = idx"
  proof -
    have "(?c + ?j + 1) mod ?n = (?c + 1 + (idx + ?n - ?c - 1)) mod ?n"
      by (metis (no_types, opaque_lifting) add.assoc add.commute mod_add_right_eq)
    also have "?c + 1 + (idx + ?n - ?c - 1) = idx + ?n" using c assms(2) by simp
    also have "(idx + ?n) mod ?n = idx" using assms(2) by simp
    finally show ?thesis by (simp add: rotation_def)
  qed
  ultimately show ?thesis by blast
qed


lemma rotation_less: "rpc_wf m \<Longrightarrow> rotation m k < providers_length m"
  by (simp add: rotation_def rpc_wf_def providers_length_def)

lemma findProvider_first:
  assumes q: "qualifies m now (rotation m k)" and k: "k < providers_length m"
    and least: "\<forall>j<k. \<not> qualifies m now (rotation m j)"
  shows "findProvider m now 0 = Some (rotation m k)"
proof (cases "findProvider m now 0")
  case None
  from findProvider_None [OF None _ k] q show ?thesis by simp
next
  case (Some idx)
  from findProvider_Some [OF Some] obtain k' where
    k': "k' < providers_length m" "idx = rotation m k'" "qualifies m now idx"
        "\<forall>j. j < k' \<longrightarrow> \<not> qualifies m now (rotation m j)"
    by auto
  have "k' = k"
  proof (rule ccontr)
    assume "k' \<noteq> k"
    then consider "k' < k" | "k < k'" by linarith
    then show False
    proof cases
      case 1 with least k'(2,3) show False by simp
    next
      case 2 with k'(4) q show False by simp
    qed
  qed
  with Some k'(2) show ?thesis by simp
qed

lemma findProvider_none_qualifies:
  assumes wf: "rpc_wf m" and none: "\<forall>idx<providers_length m. \<not> qualifies m now idx"
  shows "findProvider m now 0 = None"
proof (cases "findProvider m now 0")
  case None then show ?thesis .
next
  case (Some idx)
  from findProvider_Some [OF Some] obtain k where
    "idx = rotation m k" "qualifies m now idx" by auto
  with none rotation_less [OF wf, of k] show ?thesis by simp
qed

lemma getProvider_slot:
  assumes wf: "rpc_wf m"
  shows "fst (getProvider m now) < providers_length m \<and> rpc_wf (snd (getProvider m now))"
proof (cases "qualifies m now (currentIndex m)")
  case True
  with wf show ?thesis
    by (simp add: getProvider_def rpc_wf_def providers_length_def)
next
  case False
  show ?thesis
  proof (cases "findProvider m now 0")
    case None
    with False wf show ?thesis
      by (simp add: getProvider_def rpc_wf_def providers_length_def)
  next
    case (Some idx)
    from findProvider_Some [OF Some] obtain k where "idx = rotation m k" by auto
    with rotation_less [OF wf, of k] have "idx < providers_length m" by simp
    with False Some wf show ?thesis
      by (simp add: getProvider_def rpc_wf_def providers_length_def)
  qed
qed

text \<open>
  Claim C6. \<^verbatim>\<open>getProvider\<close> returns the currently selected endpoint whenever that
  endpoint is healthy, has fewer than 3 failures and was last used more than 500 ms
  ago. Otherwise it returns the first endpoint in rotation order, starting just after
  the current index, that meets the three conditions, and makes it the current one.
  If no endpoint of the pool qualifies it resets every failure count to 0, selects
  endpoint 0 (the primary) and returns it. In every case the call returns an endpoint
  of the pool: the search is a terminating loop, so the call never blocks.
\<close>

theorem getProvider_selection:
  assumes wf: "rpc_wf m"
  shows "(qualifies m now (currentIndex m) \<longrightarrow>
            fst (getProvider m now) = currentIndex m
            \<and> currentIndex (snd (getProvider m now)) = currentIndex m)
       \<and> (\<not> qualifies m now (currentIndex m) \<longrightarrow>
            (\<forall>k<providers_length m.
               qualifies m now (rotation m k)
               \<and> (\<forall>j<k. \<not> qualifies m now (rotation m j)) \<longrightarrow>
                 fst (getProvider m now) = rotation m k
                 \<and> currentIndex (snd (getProvider m now)) = rotation m k))
       \<and> ((\<forall>idx<providers_length m. \<not> qualifies m now idx) \<longrightarrow>
            fst (getProvider m now) = 0
            \<and> currentIndex (snd (getProvider m now)) = 0
            \<and> failCounts (snd (getProvider m now)) = replicate (providers_length m) 0)
       \<and> fst (getProvider m now) < providers_length m"
proof (intro conjI impI allI)
  assume "qualifies m now (currentIndex m)"
  then show "fst (getProvider m now) = currentIndex m"
    and "currentIndex (snd (getProvider m now)) = currentIndex m"
    by (simp_all add: getProvider_def)
next
  fix k
  assume nq: "\<not> qualifies m now (currentIndex m)" and k: "k < providers_length m"
    and q: "qualifies m now (rotation m k) \<and> (\<forall>j<k. \<not> qualifies m now (rotation m j))"
  from findProvider_first [of m now k] q k
  have "findProvider m now 0 = Some (rotation m k)" by simp
  with nq show "fst (getProvider m now) = rotation m k"
    and "currentIndex (snd (getProvider m now)) = rotation m k"
    by (simp_all add: getProvider_def)
next
  assume none: "\<forall>idx<providers_length m. \<not> qualifies m now idx"
  from wf have cur: "currentIndex m < providers_length m"
    by (simp add: rpc_wf_def providers_length_def)
  with none have nq: "\<not> qualifies m now (currentIndex m)" by simp
  from findProvider_none_qualifies [OF wf none] nq
  show "fst (getProvider m now) = 0" and "currentIndex (snd (getProvider m now)) = 0"
    by (simp_all add: getProvider_def)
  from wf have "map (\<lambda>_. 0) (failCounts m) = replicate (providers_length m) (0::nat)"
    by (simp add: rpc_wf_def providers_length_def map_replicate_const)
  with findProvider_none_qualifies [OF wf none] nq
  show "failCounts (snd (getProvider m now)) = replicate (providers_length m) 0"
    by (simp add: getProvider_def)
next
  from getProvider_slot [OF wf] show "fst (getProvider m now) < providers_length m"
    by simp
qed

text \<open>
  The theorem at three pools of three endpoints, read at clock 1000: one whose current
  endpoint qualifies, one where the current endpoint and the next are over the failure
  limit and the third is returned, and one where nothing qualifies.
\<close>

theorem getProvider_selection_witness:
  "fst (getProvider \<lparr>rpcUrls = [''a'', ''b'', ''c''], currentIndex = 1,
         failCounts = [0, 2, 0], lastUsed = [0, 0, 0],
         healthStatus = [True, True, True]\<rparr> 1000) = 1
   \<and> fst (getProvider \<lparr>rpcUrls = [''a'', ''b'', ''c''], currentIndex = 0,
         failCounts = [3, 3, 0], lastUsed = [0, 0, 0],
         healthStatus = [False, False, True]\<rparr> 1000) = 2
   \<and> fst (getProvider \<lparr>rpcUrls = [''a'', ''b'', ''c''], currentIndex = 2,
         failCounts = [3, 1, 0], lastUsed = [0, 900, 0],
         healthStatus = [False, True, False]\<rparr> 1000) = 0
   \<and> failCounts (snd (getProvider \<lparr>rpcUrls = [''a'', ''b'', ''c''], currentIndex = 2,
         failCounts = [3, 1, 0], lastUsed = [0, 900, 0],
         healthStatus = [False, True, False]\<rparr> 1000)) = [0, 0, 0]"
proof -
  let ?m1 = "\<lparr>rpcUrls = [''a'', ''b'', ''c''], currentIndex = 1,
         failCounts = [0, 2, 0], lastUsed = [0, 0, 0],
         healthStatus = [True, True, True]\<rparr>"
  let ?m2 = "\<lparr>rpcUrls = [''a'', ''b'', ''c''], currentIndex = 0,
         failCounts = [3, 3, 0], lastUsed = [0, 0, 0],
         healthStatus = [False, False, True]\<rparr>"
  let ?m3 = "\<lparr>rpcUrls = [''a'', ''b'', ''c''], currentIndex = 2,
         failCounts = [3, 1, 0], lastUsed = [0, 900, 0],
         healthStatus = [False, True, False]\<rparr>"
  have wf: "rpc_wf ?m1" "rpc_wf ?m2" "rpc_wf ?m3" by (simp_all add: rpc_wf_def)
  have a: "fst (getProvider ?m1 1000) = 1"
    using getProvider_selection [OF wf(1), of 1000] by (simp add: qualifies_def)
  have b: "fst (getProvider ?m2 1000) = 2"
    using getProvider_selection [OF wf(2), of 1000, THEN conjunct2, THEN conjunct1,
        rule_format, of 1]
    by (simp add: qualifies_def rotation_def providers_length_def)
  have none: "\<forall>idx<providers_length ?m3. \<not> qualifies ?m3 1000 idx"
    by (auto simp: providers_length_def qualifies_def less_Suc_eq)
  have c: "fst (getProvider ?m3 1000) = 0
      \<and> failCounts (snd (getProvider ?m3 1000)) = [0, 0, 0]"
    using getProvider_selection [OF wf(3), of 1000, THEN conjunct2, THEN conjunct2,
        THEN conjunct1, THEN mp, OF none]
    by (simp add: providers_length_def numeral_3_eq_3)
  from a b c show ?thesis by simp
qed

text \<open>
  Claim C5, at a pool of two endpoints starting from the constructor's state: the
  third \<^verbatim>\<open>reportFailure\<close> marks endpoint 0 unhealthy, schedules the cooldown timer and
  moves the pointer to endpoint 1. The timer's callback reads \<^verbatim>\<open>this.currentIndex\<close>
  when it fires, which by then is 1: it resets endpoint 1, and endpoint 0 stays
  unhealthy with its three failures.
\<close>

theorem reportFailure_cooldown_resets_current_endpoint:
  "(let m0 = rpc_init ''primary'' [''backup''];
        m1 = fst (reportFailure m0);
        m2 = fst (reportFailure m1);
        r3 = reportFailure m2;
        m3 = fst r3;
        m4 = cooldownCallback m3
    in snd r3 = True
       \<and> currentIndex m3 = 1 \<and> healthStatus m3 = [False, True] \<and> failCounts m3 = [3, 0]
       \<and> currentIndex m4 = 1 \<and> healthStatus m4 = [False, True] \<and> failCounts m4 = [3, 0])"
  by (simp add: rpc_init_def reportFailure_def cooldownCallback_def providers_length_def
      Let_def)

section \<open>Properties of the network condition monitor\<close>

lemmas js_defs = bindJ_def tryCatch_def returnJ_def throwJ_def liftJ_def await_def
  awaitOrNull_def

lemma tdiv_nonneg: "0 \<le> a \<Longrightarrow> 0 < b \<Longrightarrow> tdiv a b = a div b"
  by (simp add: tdiv_def)





text \<open>
  When the last check is stale and sampling fails, the handler returns the stored
  price as it is, whatever the multiplier.
\<close>

lemma getGasPrice_fallback:
  assumes "\<not> clock s - lastCheckTime (networkHealth s) < 2 * 60 * 1000"
    and "provider_getGasPrice e (clock s) = Inl err"
  shows "fst (getGasPrice e m s) = Inr (gasPrice (networkHealth s))"
  using assms by (simp add: getGasPrice_def js_defs)

lemma getGasPrice_returns: "\<exists>g s'. getGasPrice e m s = (Inr g, s')"
  by (auto simp: getGasPrice_def js_defs Let_def split: sum.splits)

lemma getGasPrice_frame:
  "getGasPrice e m s = (r, s') \<Longrightarrow>
     bnbPrice s' = bnbPrice s \<and> lastUpdated s' = lastUpdated s
     \<and> priceCache s' = priceCache s \<and> feeParameters s' = feeParameters s"
  by (auto simp: getGasPrice_def js_defs Let_def split: sum.splits if_splits)


section \<open>Properties of the market data service\<close>








lemma getTokenPriceUSD_uncached:
  "staleOrAbsent s tok \<Longrightarrow>
     getTokenPriceUSD cfg e tok dec s
       = tryCatch (getTokenPriceUSD_body cfg e tok dec) (\<lambda>error. returnJ 0) s"
  by (auto simp: staleOrAbsent_def getTokenPriceUSD_def split: option.splits)

lemma getTokenPriceUSD_onehop:
  assumes "staleOrAbsent s tok" "\<not> isStablecoin cfg tok" "tok \<noteq> WBNB cfg" "dec \<le> 256"
    and q: "getAmountsOut e (clock s) PancakeSwap (10 ^ dec) [tok, BUSD cfg] = Inr amounts"
    and len: "length amounts \<ge> 2"
  shows "fst (getTokenPriceUSD cfg e tok dec s) = Inr (of_int (int (amounts ! 1)) / 10 ^ 18)"
    and "priceCache (snd (getTokenPriceUSD cfg e tok dec s)) tok
          = Some \<lparr>price = of_int (int (amounts ! 1)) / 10 ^ 18, timestamp = elapse e (clock s)\<rparr>"
proof -
  have pu: "parseUnits 1 dec = Inr (10 ^ dec)"
    using assms(4) by (simp add: parseUnits_def)
  show "fst (getTokenPriceUSD cfg e tok dec s) = Inr (of_int (int (amounts ! 1)) / 10 ^ 18)"
    and "priceCache (snd (getTokenPriceUSD cfg e tok dec s)) tok
          = Some \<lparr>price = of_int (int (amounts ! 1)) / 10 ^ 18, timestamp = elapse e (clock s)\<rparr>"
    using assms(2,3) q len
    by (simp_all add: getTokenPriceUSD_uncached [OF assms(1)] getTokenPriceUSD_body_def pu
        js_defs cacheAndReturn_def formatEther_def)
qed


lemma not_quoteOk_cases:
  "\<not> quoteOk q \<Longrightarrow> (case q of Inl _ \<Rightarrow> None | Inr r \<Rightarrow> Some r) = None
      \<or> (\<exists>a. (case q of Inl _ \<Rightarrow> None | Inr r \<Rightarrow> Some r) = Some a \<and> \<not> 2 \<le> length a)"
  by (auto simp: quoteOk_def split: sum.splits)










section \<open>Properties of the profitability evaluator\<close>


lemma tryCatch_default_returns: "\<exists>r s'. tryCatch m (\<lambda>error. returnJ d) s = (Inr r, s')"
  by (cases "m s") (auto simp: tryCatch_def returnJ_def split: sum.splits)

lemma getTokenPriceUSD_returns: "\<exists>r s'. getTokenPriceUSD cfg e tok dec s = (Inr r, s')"
  using tryCatch_default_returns [of "getTokenPriceUSD_body cfg e tok dec" 0 s]
  by (auto simp: getTokenPriceUSD_def returnJ_def split: option.splits)

lemma convertToUSD_returns:
  assumes "dec \<le> 256"
  shows "\<exists>r s'. convertToUSD cfg e amount tok dec s = (Inr r, s')"
  using getTokenPriceUSD_returns [of cfg e tok dec s] assms
  by (auto simp: convertToUSD_def formatUnits_def js_defs)

lemma flashLoanFee_ok:
  "feeDenominator fp dir \<noteq> 0 \<Longrightarrow> \<exists>fee. flashLoanFee fp loan dir = Inr fee"
  by (cases dir) (simp_all add: flashLoanFee_def bn_div_def feeDenominator_def)

lemma calculateProfit_steps:
  assumes call: "checkArbitrageProfitability e (clock s) ad loan dir = Inr [p, f, u]"
    and den: "feeDenominator (feeParameters s) dir \<noteq> 0"
    and dec: "decimals tok \<le> 256"
  shows "\<exists>pf g s1 s2 s'.
      calculateProfit cfg e ad loan dir tok s = (Inr (Profit pf), s')
    \<and> getGasPrice e (11 / 10) (s\<lparr>clock := elapse e (clock s)\<rparr>) = (Inr g, s1)
    \<and> convertToUSD cfg e (int u) (td_address tok) (decimals tok) s1 = (Inr (profitUSD pf), s2)
    \<and> convertToUSD cfg e loan (td_address tok) (decimals tok) s2 = (Inr (loanAmountUSD pf), s')
    \<and> expectedProfit pf = int p \<and> expectedPlatformFee pf = int f \<and> expectedUserProfit pf = int u
    \<and> gasCostUSD pf = of_int (g * GAS_LIMIT cfg) / 10 ^ 18 * bnbPrice s1
    \<and> netProfitUSD pf = profitUSD pf - gasCostUSD pf
    \<and> profitPercentage pf =
         (if loanAmountUSD pf > 0 then netProfitUSD pf / loanAmountUSD pf * 100 else 0)
    \<and> isProfit pf = (profitPercentage pf \<ge> MIN_PROFIT_PERCENTAGE cfg)
    \<and> isProfitable cfg (Profit pf) = (profitPercentage pf \<ge> MIN_PROFIT_PERCENTAGE cfg)"
proof -
  let ?s0 = "s\<lparr>clock := elapse e (clock s)\<rparr>"
  obtain g s1 where g: "getGasPrice e (11 / 10) ?s0 = (Inr g, s1)"
    using getGasPrice_returns by blast
  from getGasPrice_frame [OF g] have fp: "feeParameters s1 = feeParameters s" by simp
  from den have "\<exists>fee. flashLoanFee (feeParameters s1) loan dir = Inr fee"
    unfolding fp by (rule flashLoanFee_ok)
  then obtain fee where fee: "flashLoanFee (feeParameters s1) loan dir = Inr fee" ..
  obtain pu s2 where pu: "convertToUSD cfg e (int u) (td_address tok) (decimals tok) s1 = (Inr pu, s2)"
    using convertToUSD_returns [OF dec] by blast
  obtain lu s3 where lu: "convertToUSD cfg e loan (td_address tok) (decimals tok) s2 = (Inr lu, s3)"
    using convertToUSD_returns [OF dec] by blast
  let ?gc = "of_int (g * GAS_LIMIT cfg) / 10 ^ 18 * bnbPrice s1"
  let ?pct = "if lu > 0 then (pu - ?gc) / lu * 100 else 0"
  let ?pf = "\<lparr> expectedProfit = int p, expectedPlatformFee = int f, expectedUserProfit = int u,
      profitUSD = pu, netProfitUSD = pu - ?gc, gasCostUSD = ?gc, loanAmountUSD = lu,
      profitPercentage = ?pct, isProfit = (?pct \<ge> MIN_PROFIT_PERCENTAGE cfg) \<rparr>"
  have "calculateProfit cfg e ad loan dir tok s = (Inr (Profit ?pf), s3)"
    using call g fee pu lu
    by (simp add: calculateProfit_def calculateProfit_body_def bindJ_def tryCatch_def
        await_def returnJ_def liftJ_def formatEther_def Let_def)
  with g pu lu show ?thesis
    by (intro exI [of _ ?pf] exI [of _ g] exI [of _ s1] exI [of _ s2] exI [of _ s3]) simp
qed



lemma feeEquiv_fields:
  assumes "feeEquiv s t"
  shows "clock s = clock t" "bnbPrice s = bnbPrice t" "lastUpdated s = lastUpdated t"
    "priceCache s = priceCache t" "networkHealth s = networkHealth t"
    "tokenCache s = tokenCache t"
proof -
  from assms have eq: "s\<lparr>feeParameters := feeParameters t\<rparr> = t" by (simp add: feeEquiv_def)
  show "clock s = clock t" using arg_cong [OF eq, of clock] by simp
  show "bnbPrice s = bnbPrice t" using arg_cong [OF eq, of bnbPrice] by simp
  show "lastUpdated s = lastUpdated t" using arg_cong [OF eq, of lastUpdated] by simp
  show "priceCache s = priceCache t" using arg_cong [OF eq, of priceCache] by simp
  show "networkHealth s = networkHealth t" using arg_cong [OF eq, of networkHealth] by simp
  show "tokenCache s = tokenCache t" using arg_cong [OF eq, of tokenCache] by simp
qed

lemma feeEquivI:
  "clock s = clock t \<Longrightarrow> bnbPrice s = bnbPrice t \<Longrightarrow> lastUpdated s = lastUpdated t \<Longrightarrow>
   priceCache s = priceCache t \<Longrightarrow> networkHealth s = networkHealth t \<Longrightarrow>
   tokenCache s = tokenCache t \<Longrightarrow> feeEquiv s t"
  by (cases s, cases t) (simp add: feeEquiv_def)

lemma feeEquiv_upd [simp]: "feeEquiv (s\<lparr>feeParameters := fp1\<rparr>) (s\<lparr>feeParameters := fp2\<rparr>)"
  by (simp add: feeEquiv_def)

lemma ignoresFeesI:
  "(\<And>s t. feeEquiv s t \<Longrightarrow> fst (m s) = fst (m t) \<and> feeEquiv (snd (m s)) (snd (m t)))
     \<Longrightarrow> ignoresFees m"
  by (simp add: ignoresFees_def)

lemma ignoresFeesD:
  "ignoresFees m \<Longrightarrow> feeEquiv s t \<Longrightarrow> fst (m s) = fst (m t) \<and> feeEquiv (snd (m s)) (snd (m t))"
  by (simp add: ignoresFees_def)

lemma ignoresFees_returnJ [intro!]: "ignoresFees (returnJ x)"
  by (simp add: ignoresFees_def returnJ_def)

lemma ignoresFees_throwJ [intro!]: "ignoresFees (throwJ x)"
  by (simp add: ignoresFees_def throwJ_def)

lemma ignoresFees_liftJ [intro!]: "ignoresFees (liftJ x)"
  by (simp add: ignoresFees_def liftJ_def)

lemma ignoresFees_await [intro!]: "ignoresFees (await e call)"
  by (rule ignoresFeesI) (auto simp: await_def dest: feeEquiv_fields intro!: feeEquivI)

lemma ignoresFees_awaitOrNull [intro!]: "ignoresFees (awaitOrNull e call)"
  by (rule ignoresFeesI) (auto simp: awaitOrNull_def dest: feeEquiv_fields intro!: feeEquivI)

lemma ignoresFees_bindJ [intro!]:
  assumes m: "ignoresFees m" and f: "\<And>x. ignoresFees (f x)"
  shows "ignoresFees (bindJ m f)"
proof (rule ignoresFeesI)
  fix s t assume st: "feeEquiv s t"
  from ignoresFeesD [OF m st] have 1: "fst (m s) = fst (m t)" and 2: "feeEquiv (snd (m s)) (snd (m t))"
    by simp_all
  show "fst (bindJ m f s) = fst (bindJ m f t) \<and> feeEquiv (snd (bindJ m f s)) (snd (bindJ m f t))"
  proof (cases "fst (m s)")
    case (Inl err)
    with 1 2 show ?thesis
      by (cases "m s"; cases "m t") (simp add: bindJ_def)
  next
    case (Inr x)
    with 1 2 ignoresFeesD [OF f [of x] 2] show ?thesis
      by (cases "m s"; cases "m t") (simp add: bindJ_def)
  qed
qed

lemma ignoresFees_tryCatch [intro!]:
  assumes m: "ignoresFees m" and h: "\<And>x. ignoresFees (h x)"
  shows "ignoresFees (tryCatch m h)"
proof (rule ignoresFeesI)
  fix s t assume st: "feeEquiv s t"
  from ignoresFeesD [OF m st] have 1: "fst (m s) = fst (m t)" and 2: "feeEquiv (snd (m s)) (snd (m t))"
    by simp_all
  show "fst (tryCatch m h s) = fst (tryCatch m h t) \<and> feeEquiv (snd (tryCatch m h s)) (snd (tryCatch m h t))"
  proof (cases "fst (m s)")
    case (Inl err)
    with 1 2 ignoresFeesD [OF h [of err] 2] show ?thesis
      by (cases "m s"; cases "m t") (simp add: tryCatch_def)
  next
    case (Inr x)
    with 1 2 show ?thesis
      by (cases "m s"; cases "m t") (simp add: tryCatch_def)
  qed
qed

text \<open>A step that first reads fields other than the fee pairs.\<close>

lemma ignoresFees_read:
  assumes "\<And>s t. feeEquiv s t \<Longrightarrow> g s = g t" and "\<And>v. ignoresFees (k v)"
  shows "ignoresFees (\<lambda>s. k (g s) s)"
proof (rule ignoresFeesI)
  fix s t assume st: "feeEquiv s t"
  with assms(1) have "g s = g t" by simp
  with ignoresFeesD [OF assms(2) [of "g t"] st]
  show "fst (k (g s) s) = fst (k (g t) t) \<and> feeEquiv (snd (k (g s) s)) (snd (k (g t) t))"
    by simp
qed

lemma ignoresFees_getGasPrice: "ignoresFees (getGasPrice e m)"
proof (rule ignoresFeesI)
  fix s t assume st: "feeEquiv s t"
  note f = feeEquiv_fields [OF st]
  show "fst (getGasPrice e m s) = fst (getGasPrice e m t)
      \<and> feeEquiv (snd (getGasPrice e m s)) (snd (getGasPrice e m t))"
    using st f
    by (auto simp: getGasPrice_def js_defs Let_def split: sum.splits intro!: feeEquivI)
qed

lemma ignoresFees_updateBnbPrice: "ignoresFees (updateBnbPrice cfg e)"
proof (rule ignoresFeesI)
  fix s t assume st: "feeEquiv s t"
  note f = feeEquiv_fields [OF st]
  show "fst (updateBnbPrice cfg e s) = fst (updateBnbPrice cfg e t)
      \<and> feeEquiv (snd (updateBnbPrice cfg e s)) (snd (updateBnbPrice cfg e t))"
    using st f
    by (auto simp: updateBnbPrice_def js_defs Let_def split: sum.splits intro!: feeEquivI)
qed

lemma ignoresFees_refreshBnbPrice: "ignoresFees (refreshBnbPrice cfg e)"
proof (rule ignoresFeesI)
  fix s t assume st: "feeEquiv s t"
  note f = feeEquiv_fields [OF st]
  from ignoresFeesD [OF ignoresFees_updateBnbPrice st, of cfg e] st f
  show "fst (refreshBnbPrice cfg e s) = fst (refreshBnbPrice cfg e t)
      \<and> feeEquiv (snd (refreshBnbPrice cfg e s)) (snd (refreshBnbPrice cfg e t))"
    by (cases "updateBnbPrice cfg e s"; cases "updateBnbPrice cfg e t")
       (auto simp: refreshBnbPrice_def bindJ_def returnJ_def split: sum.splits)
qed

lemma ignoresFees_cacheAndReturn: "ignoresFees (cacheAndReturn tok p)"
proof (rule ignoresFeesI)
  fix s t assume st: "feeEquiv s t"
  note f = feeEquiv_fields [OF st]
  show "fst (cacheAndReturn tok p s) = fst (cacheAndReturn tok p t)
      \<and> feeEquiv (snd (cacheAndReturn tok p s)) (snd (cacheAndReturn tok p t))"
    using f by (auto simp: cacheAndReturn_def returnJ_def intro!: feeEquivI)
qed

lemma ignoresFees_if:
  "ignoresFees a \<Longrightarrow> ignoresFees b \<Longrightarrow> ignoresFees (if c then a else b)"
  by simp

lemma ignoresFees_readBnb:
  assumes "\<And>b. ignoresFees (k b)"
  shows "ignoresFees (\<lambda>s. k (bnbPrice s) s)"
proof (rule ignoresFeesI)
  fix s t assume st: "feeEquiv s t"
  from feeEquiv_fields(2) [OF st] ignoresFeesD [OF assms [of "bnbPrice t"] st]
  show "fst (k (bnbPrice s) s) = fst (k (bnbPrice t) t)
      \<and> feeEquiv (snd (k (bnbPrice s) s)) (snd (k (bnbPrice t) t))"
    by simp
qed

lemma ignoresFees_body: "ignoresFees (getTokenPriceUSD_body cfg e tok dec)"
  unfolding getTokenPriceUSD_body_def
  by (intro ignoresFees_if ignoresFees_bindJ ignoresFees_returnJ ignoresFees_liftJ
        ignoresFees_awaitOrNull ignoresFees_refreshBnbPrice ignoresFees_cacheAndReturn
        ignoresFees_readBnb [where k = "\<lambda>b. returnJ b"]
        ignoresFees_readBnb [where k = "\<lambda>b. cacheAndReturn tok (x * b)" for x])

lemma ignoresFees_getTokenPriceUSD: "ignoresFees (getTokenPriceUSD cfg e tok dec)"
proof (rule ignoresFeesI)
  fix s t assume st: "feeEquiv s t"
  note f = feeEquiv_fields [OF st]
  have tc: "ignoresFees (tryCatch (getTokenPriceUSD_body cfg e tok dec) (\<lambda>error. returnJ 0))"
    by (intro ignoresFees_tryCatch ignoresFees_body ignoresFees_returnJ)
  from ignoresFeesD [OF tc st] st f
  show "fst (getTokenPriceUSD cfg e tok dec s) = fst (getTokenPriceUSD cfg e tok dec t)
      \<and> feeEquiv (snd (getTokenPriceUSD cfg e tok dec s)) (snd (getTokenPriceUSD cfg e tok dec t))"
    by (auto simp: getTokenPriceUSD_def returnJ_def split: option.splits)
qed

lemma ignoresFees_convertToUSD: "ignoresFees (convertToUSD cfg e amount tok dec)"
  unfolding convertToUSD_def
  by (intro ignoresFees_bindJ ignoresFees_liftJ ignoresFees_getTokenPriceUSD ignoresFees_returnJ)


lemma calculateProfit_from_body:
  "calculateProfit cfg e ad loan dir tok s =
     (case calculateProfit_body cfg e ad loan dir tok s of
        (Inl err, s') \<Rightarrow> (Inr (ProfitError (message err)), s')
      | (Inr pf, s') \<Rightarrow> (Inr (Profit pf), s'))"
  by (simp add: calculateProfit_def tryCatch_def bindJ_def returnJ_def split: prod.splits sum.splits)


lemma calculateProfit_body_ignores_fees:
  assumes st: "feeEquiv s t"
    and ds: "feeDenominator (feeParameters s) dir \<noteq> 0"
    and dt: "feeDenominator (feeParameters t) dir \<noteq> 0"
  shows "fst (calculateProfit_body cfg e ad loan dir tok s)
           = fst (calculateProfit_body cfg e ad loan dir tok t)
       \<and> feeEquiv (snd (calculateProfit_body cfg e ad loan dir tok s))
                   (snd (calculateProfit_body cfg e ad loan dir tok t))"
proof -
  note f = feeEquiv_fields [OF st]
  let ?s0 = "s\<lparr>clock := elapse e (clock s)\<rparr>"
  let ?t0 = "t\<lparr>clock := elapse e (clock t)\<rparr>"
  have e0: "feeEquiv ?s0 ?t0" using f by (intro feeEquivI) simp_all
  show ?thesis
  proof (cases "checkArbitrageProfitability e (clock s) ad loan dir")
    case (Inl err)
    with f e0 show ?thesis
      by (simp add: calculateProfit_body_def bindJ_def await_def)
  next
    case (Inr r)
    show ?thesis
    proof (cases "length r = 3")
      case False
      with Inr f e0 show ?thesis
        by (simp add: calculateProfit_body_def bindJ_def await_def throwJ_def)
    next
      case True
      obtain g s1 where gs: "getGasPrice e (11 / 10) ?s0 = (Inr g, s1)"
        using getGasPrice_returns by blast
      obtain g' t1 where gt: "getGasPrice e (11 / 10) ?t0 = (Inr g', t1)"
        using getGasPrice_returns by blast
      from ignoresFeesD [OF ignoresFees_getGasPrice e0, of e "11 / 10"] gs gt
      have gg: "g' = g" and e1: "feeEquiv s1 t1" by simp_all
      from getGasPrice_frame [OF gs] getGasPrice_frame [OF gt]
      have fps: "feeParameters s1 = feeParameters s" and fpt: "feeParameters t1 = feeParameters t"
        by simp_all
      from flashLoanFee_ok [OF ds, of loan] obtain fs where
        fs: "flashLoanFee (feeParameters s1) loan dir = Inr fs" unfolding fps ..
      from flashLoanFee_ok [OF dt, of loan] obtain ft where
        ft: "flashLoanFee (feeParameters t1) loan dir = Inr ft" unfolding fpt ..
      define rest where "rest b =
        bindJ (convertToUSD cfg e (int (r ! 2)) (td_address tok) (decimals tok)) (\<lambda>profit.
        bindJ (convertToUSD cfg e loan (td_address tok) (decimals tok)) (\<lambda>loanValue.
          returnJ
            \<lparr> expectedProfit = int (r ! 0), expectedPlatformFee = int (r ! 1),
              expectedUserProfit = int (r ! 2), profitUSD = profit,
              netProfitUSD = profit - formatEther (g * GAS_LIMIT cfg) * b,
              gasCostUSD = formatEther (g * GAS_LIMIT cfg) * b,
              loanAmountUSD = loanValue,
              profitPercentage =
                (if loanValue > 0
                 then ((profit - formatEther (g * GAS_LIMIT cfg) * b) / loanValue) * 100 else 0),
              isProfit =
                ((if loanValue > 0
                  then ((profit - formatEther (g * GAS_LIMIT cfg) * b) / loanValue) * 100 else 0)
                 \<ge> MIN_PROFIT_PERCENTAGE cfg) \<rparr>))" for b :: rat
      have ir: "ignoresFees (rest b)" for b
        unfolding rest_def
        by (intro ignoresFees_bindJ ignoresFees_convertToUSD ignoresFees_returnJ)
      have cs: "calculateProfit_body cfg e ad loan dir tok s = rest (bnbPrice s1) s1"
        using Inr True gs fs
        by (simp add: calculateProfit_body_def bindJ_def await_def liftJ_def Let_def rest_def)
      have ct: "calculateProfit_body cfg e ad loan dir tok t = rest (bnbPrice t1) t1"
        using Inr True gt fs ft f gg
        by (simp add: calculateProfit_body_def bindJ_def await_def liftJ_def Let_def rest_def)
      from feeEquiv_fields(2) [OF e1] ignoresFeesD [OF ir e1, of "bnbPrice t1"]
      show ?thesis by (simp add: cs ct)
    qed
  qed
qed

text \<open>
  Claim C10, as the code has it. For two runs of \<^verbatim>\<open>calculateProfit\<close> that differ only
  in the stored fee pairs, both with a nonzero fee denominator for the starting
  exchange, the returned results are identical, and the final states differ at most in
  the fee pairs.
\<close>

theorem calculateProfit_ignores_fees:
  assumes d1: "feeDenominator fp1 dir \<noteq> 0" and d2: "feeDenominator fp2 dir \<noteq> 0"
  shows "fst (calculateProfit cfg e ad loan dir tok (s\<lparr>feeParameters := fp1\<rparr>))
         = fst (calculateProfit cfg e ad loan dir tok (s\<lparr>feeParameters := fp2\<rparr>))
       \<and> feeEquiv (snd (calculateProfit cfg e ad loan dir tok (s\<lparr>feeParameters := fp1\<rparr>)))
                   (snd (calculateProfit cfg e ad loan dir tok (s\<lparr>feeParameters := fp2\<rparr>)))"
proof -
  let ?s = "s\<lparr>feeParameters := fp1\<rparr>" and ?t = "s\<lparr>feeParameters := fp2\<rparr>"
  have st: "feeEquiv ?s ?t" by simp
  from calculateProfit_body_ignores_fees [OF st, of dir cfg e ad loan tok] d1 d2
  show ?thesis
    by (cases "calculateProfit_body cfg e ad loan dir tok ?s";
        cases "calculateProfit_body cfg e ad loan dir tok ?t")
       (auto simp: calculateProfit_from_body split: sum.splits)
qed





text \<open>
  Claim C10 as stated fails: with a zero fee denominator for the starting exchange the
  fee computation throws, and the same candidate that evaluates under the default fee
  pairs comes back as an error result.
\<close>

theorem calculateProfit_zero_denominator:
  "fst (calculateProfit example_config example_env example_data (1000 * 10 ^ 18) True
          busd_details profit_state) \<noteq>
   fst (calculateProfit example_config example_env example_data (1000 * 10 ^ 18) True
          busd_details
          (profit_state\<lparr>feeParameters := \<lparr> pancakeSwapFeeNumerator = 25,
             pancakeSwapFeeDenominator = 0, biswapFeeNumerator = 20,
             biswapFeeDenominator = 9980 \<rparr>\<rparr>))
   \<and> fst (calculateProfit example_config example_env example_data (1000 * 10 ^ 18) True
          busd_details
          (profit_state\<lparr>feeParameters := \<lparr> pancakeSwapFeeNumerator = 25,
             pancakeSwapFeeDenominator = 0, biswapFeeNumerator = 20,
             biswapFeeDenominator = 9980 \<rparr>\<rparr>)) = Inr (ProfitError ''division-by-zero'')"
proof -
  let ?fp0 = "\<lparr> pancakeSwapFeeNumerator = 25, pancakeSwapFeeDenominator = 0,
      biswapFeeNumerator = 20, biswapFeeDenominator = (9980::int) \<rparr>"
  let ?t = "profit_state\<lparr>feeParameters := ?fp0\<rparr>"
  have "checkArbitrageProfitability example_env (clock profit_state) example_data
        (1000 * 10 ^ 18) True = Inr [12 * 10 ^ 18, 2 * 10 ^ 18, 10 * 10 ^ 18]"
    by (simp add: example_env_def)
  moreover have "feeDenominator (feeParameters profit_state) True \<noteq> 0"
    by (simp add: feeDenominator_def profit_state_def initial_state_def)
  moreover have "decimals busd_details \<le> 256" by (simp add: busd_details_def)
  ultimately obtain pf s' where
    a: "calculateProfit example_config example_env example_data (1000 * 10 ^ 18) True
          busd_details profit_state = (Inr (Profit pf), s')"
    using calculateProfit_steps [of example_env profit_state example_data "1000 * 10 ^ 18" True
        _ _ _ busd_details example_config]
    by blast
  have eqv: "feeEquiv profit_state ?t" by (simp add: feeEquiv_def)
  have c0: "clock ?t = 1000000"  by (simp add: profit_state_def initial_state_def)
  obtain g t1 where gt: "getGasPrice example_env (11 / 10) (?t\<lparr>clock := elapse example_env (clock ?t)\<rparr>) = (Inr g, t1)"
    using getGasPrice_returns by blast
  from getGasPrice_frame [OF gt] have fp: "feeParameters t1 = ?fp0" by simp
  have b: "calculateProfit example_config example_env example_data (1000 * 10 ^ 18) True
          busd_details ?t = (Inr (ProfitError ''division-by-zero''), t1)"
    using gt fp
    by (simp add: calculateProfit_from_body calculateProfit_body_def bindJ_def await_def
        example_env_def liftJ_def flashLoanFee_def bn_div_def Let_def)
  from a b show ?thesis by simp
qed

text \<open>The theorem at the default fee pairs against 30/10000 and 10/10000.\<close>

theorem calculateProfit_ignores_fees_witness:
  "fst (calculateProfit example_config example_env example_data (1000 * 10 ^ 18) True
          busd_details profit_state) =
   fst (calculateProfit example_config example_env example_data (1000 * 10 ^ 18) True
          busd_details
          (profit_state\<lparr>feeParameters := \<lparr> pancakeSwapFeeNumerator = 30,
             pancakeSwapFeeDenominator = 10000, biswapFeeNumerator = 10,
             biswapFeeDenominator = 10000 \<rparr>\<rparr>))"
proof -
  have "profit_state = profit_state\<lparr>feeParameters := feeParameters profit_state\<rparr>" by simp
  moreover have "feeDenominator (feeParameters profit_state) True \<noteq> 0"
    by (simp add: feeDenominator_def profit_state_def initial_state_def)
  moreover have "feeDenominator \<lparr> pancakeSwapFeeNumerator = 30,
             pancakeSwapFeeDenominator = 10000, biswapFeeNumerator = 10,
             biswapFeeDenominator = 10000 \<rparr> True \<noteq> 0"
    by (simp add: feeDenominator_def)
  ultimately show ?thesis
    using calculateProfit_ignores_fees [of "feeParameters profit_state" True
        "\<lparr> pancakeSwapFeeNumerator = 30,
             pancakeSwapFeeDenominator = 10000, biswapFeeNumerator = 10,
             biswapFeeDenominator = 10000 \<rparr>" example_config example_env example_data
        "1000 * 10 ^ 18" busd_details profit_state]
    by simp
qed

section \<open>Properties of the scanner\<close>


lemma bindJ_InrE:
  assumes "bindJ m f s = (Inr y, s')"
  obtains x s1 where "m s = (Inr x, s1)" "f x s1 = (Inr y, s')"
  using assms by (cases "m s") (auto simp: bindJ_def split: sum.splits)

lemma tryCatch_None_SomeE:
  assumes "tryCatch m (\<lambda>error. returnJ None) s = (Inr (Some y), s')"
  shows "m s = (Inr (Some y), s')"
  using assms by (cases "m s") (auto simp: tryCatch_def returnJ_def split: sum.splits)







lemma checkArbitrageLoop_returns:
  "\<exists>r s'. checkArbitrageLoop cfg e pc A B C requested s = (Inr r, s')"
  unfolding checkArbitrageLoop_def by (rule tryCatch_default_returns)


lemma checkRotations_returns:
  "\<exists>r s'. checkRotations cfg e pc requested is s = (Inr r, s')"
proof (induction "is" arbitrary: s)
  case Nil
  then show ?case by simp
next
  case (Cons i rest)
  obtain found s1 where 1: "checkArbitrageLoop cfg e pc (tokenAt pc i) (tokenAt pc (i + 1))
      (tokenAt pc (i + 2)) requested s = (Inr found, s1)"
    using checkArbitrageLoop_returns by blast
  from Cons.IH [of s1] obtain others s2 where
    2: "checkRotations cfg e pc requested rest s1 = (Inr others, s2)" by blast
  from 1 2 show ?case by simp
qed

lemma checkTriangularArbitrage_returns:
  "\<exists>r s'. checkTriangularArbitrage cfg e pc requested s = (Inr r, s')"
  unfolding checkTriangularArbitrage_def by (rule checkRotations_returns)

lemma checkPairs_returns: "\<exists>r s'. checkPairs cfg e pairs s = (Inr r, s')"
proof (induction pairs arbitrary: s)
  case Nil
  then show ?case by simp
next
  case (Cons pair rest)
  obtain a s1 where 1: "checkTriangularArbitrage cfg e pair True s = (Inr a, s1)"
    using checkTriangularArbitrage_returns by blast
  obtain b s2 where 2: "checkTriangularArbitrage cfg e pair False s1 = (Inr b, s2)"
    using checkTriangularArbitrage_returns by blast
  from Cons.IH [of s2] obtain others s3 where
    3: "checkPairs cfg e rest s2 = (Inr others, s3)" by blast
  from 1 2 3 show ?case by simp
qed

lemma checkArbitrageOpportunities_returns:
  "\<exists>opps s'. checkArbitrageOpportunities cfg e pairs s = (Inr opps, s')"
  using checkPairs_returns [of cfg e pairs s]
  by (auto simp: checkArbitrageOpportunities_def bindJ_def returnJ_def)



lemma swapHop_returns: "\<exists>out s'. swapHop e r a path d s = (Inr out, s')"
  unfolding swapHop_def by (rule tryCatch_default_returns)






lemma swapHop_nonneg: "swapHop e r a path d s = (Inr (Some out), s') \<Longrightarrow> 0 \<le> out"
  unfolding swapHop_def
  by (drule tryCatch_None_SomeE)
     (auto simp: bindJ_def await_def returnJ_def liftJ_def split: sum.splits if_splits)

lemma calculateSwapOutputs_nonneg:
  assumes "calculateSwapOutputs e dir loan p1 p2 p3 dA dB dC s = (Inr (Some result), s')"
  shows "0 \<le> amountOut1 result \<and> 0 \<le> amountOut2 result \<and> 0 \<le> amountOut3 result"
proof -
  from assms [unfolded calculateSwapOutputs_def]
  obtain u sa where "liftJ (formatUnits loan (decimals dA)) s = (Inr u, sa)"
    and r1: "bindJ (swapHop e (if dir then PancakeSwap else BiSwap) loan p1 (decimals dB))
      (\<lambda>out1. case out1 of None \<Rightarrow> returnJ None | Some o1 \<Rightarrow>
        bindJ (swapHop e (if dir then BiSwap else PancakeSwap) o1 p2 (decimals dC))
        (\<lambda>out2. case out2 of None \<Rightarrow> returnJ None | Some o2 \<Rightarrow>
          bindJ (swapHop e (if dir then PancakeSwap else BiSwap) o2 p3 (decimals dA))
          (\<lambda>out3. case out3 of None \<Rightarrow> returnJ None | Some o3 \<Rightarrow>
            returnJ (Some \<lparr> amountOut1 = o1, amountOut2 = o2, amountOut3 = o3,
                     so_loanAmount = loan \<rparr>)))) sa = (Inr (Some result), s')"
    by (rule bindJ_InrE)
  from r1 obtain out1 sb where h1: "swapHop e (if dir then PancakeSwap else BiSwap) loan p1 (decimals dB) sa = (Inr out1, sb)"
    and r2: "(case out1 of None \<Rightarrow> returnJ None | Some o1 \<Rightarrow>
        bindJ (swapHop e (if dir then BiSwap else PancakeSwap) o1 p2 (decimals dC))
        (\<lambda>out2. case out2 of None \<Rightarrow> returnJ None | Some o2 \<Rightarrow>
          bindJ (swapHop e (if dir then PancakeSwap else BiSwap) o2 p3 (decimals dA))
          (\<lambda>out3. case out3 of None \<Rightarrow> returnJ None | Some o3 \<Rightarrow>
            returnJ (Some \<lparr> amountOut1 = o1, amountOut2 = o2, amountOut3 = o3,
                     so_loanAmount = loan \<rparr>)))) sb = (Inr (Some result), s')"
    by (rule bindJ_InrE)
  from r2 obtain o1 where o1: "out1 = Some o1" by (cases out1) (auto simp: returnJ_def)
  from r2 [unfolded o1, simplified]
  obtain out2 sc where h2: "swapHop e (if dir then BiSwap else PancakeSwap) o1 p2 (decimals dC) sb = (Inr out2, sc)"
    and r3: "(case out2 of None \<Rightarrow> returnJ None | Some o2 \<Rightarrow>
          bindJ (swapHop e (if dir then PancakeSwap else BiSwap) o2 p3 (decimals dA))
          (\<lambda>out3. case out3 of None \<Rightarrow> returnJ None | Some o3 \<Rightarrow>
            returnJ (Some \<lparr> amountOut1 = o1, amountOut2 = o2, amountOut3 = o3,
                     so_loanAmount = loan \<rparr>))) sc = (Inr (Some result), s')"
    by (rule bindJ_InrE)
  from r3 obtain o2 where o2: "out2 = Some o2" by (cases out2) (auto simp: returnJ_def)
  from r3 [unfolded o2, simplified]
  obtain out3 sd where h3: "swapHop e (if dir then PancakeSwap else BiSwap) o2 p3 (decimals dA) sc = (Inr out3, sd)"
    and r4: "(case out3 of None \<Rightarrow> returnJ None | Some o3 \<Rightarrow>
            returnJ (Some \<lparr> amountOut1 = o1, amountOut2 = o2, amountOut3 = o3,
                     so_loanAmount = loan \<rparr>)) sd = (Inr (Some result), s')"
    by (rule bindJ_InrE)
  from r4 obtain o3 where o3: "out3 = Some o3" by (cases out3) (auto simp: returnJ_def)
  from r4 [unfolded o3] have res: "result = \<lparr> amountOut1 = o1, amountOut2 = o2, amountOut3 = o3,
                     so_loanAmount = loan \<rparr>" by (simp add: returnJ_def)
  from swapHop_nonneg [OF h1 [unfolded o1]] swapHop_nonneg [OF h2 [unfolded o2]]
    swapHop_nonneg [OF h3 [unfolded o3]] res
  show ?thesis by simp
qed

lemma minAmountOut_nonneg: "0 \<le> x \<Longrightarrow> minAmountOut x = x * 99 div 100"
  by (simp add: minAmountOut_def tdiv_nonneg)

lemma minAmountOut_pos: "0 \<le> x \<Longrightarrow> minAmountOut x \<noteq> 0 \<Longrightarrow> 0 < minAmountOut x"
  by (simp add: minAmountOut_nonneg)

lemma validBest_initial: "validBest cfg e dir p1 p2 p3 dA dB dC initialBest"
  by (simp add: validBest_def initialBest_def)

lemma validBest_update:
  assumes vb: "validBest cfg e dir p1 p2 p3 dA dB dC best"
    and sim: "calculateSwapOutputs e dir loan p1 p2 p3 dA dB dC s = (Inr (Some result), s1)"
    and nz: "minAmountOut (amountOut1 result) \<noteq> 0" "minAmountOut (amountOut2 result) \<noteq> 0"
      "minAmountOut (amountOut3 result) \<noteq> 0"
  shows "validBest cfg e dir p1 p2 p3 dA dB dC
           (updateBest cfg best result loan
              [minAmountOut (amountOut1 result), minAmountOut (amountOut2 result),
               minAmountOut (amountOut3 result)] pr)"
proof (cases pr)
  case (ProfitError msg)
  with vb show ?thesis by (simp add: updateBest_def)
next
  case (Profit pf)
  from calculateSwapOutputs_nonneg [OF sim] nz
  have pos: "0 < minAmountOut (amountOut1 result)" "0 < minAmountOut (amountOut2 result)"
    "0 < minAmountOut (amountOut3 result)"
    by (simp_all add: minAmountOut_pos)
  show ?thesis
  proof (cases "isProfitable cfg pr
             \<and> (bestProfitResult best = None
                \<or> profitPercentage pf > profitPercentage (the (bestProfitResult best)))")
    case False
    with vb Profit show ?thesis by (auto simp: updateBest_def)
  next
    case True
    with Profit sim pos show ?thesis
      by (auto simp: updateBest_def validBest_def)
  qed
qed

lemma sweep_validBest:
  "sweepLoanAmounts cfg e dir p1 p2 p3 dA dB dC amounts best s = (Inr best', s')
     \<Longrightarrow> validBest cfg e dir p1 p2 p3 dA dB dC best
     \<Longrightarrow> validBest cfg e dir p1 p2 p3 dA dB dC best'"
proof (induction amounts arbitrary: best s)
  case Nil
  then show ?case by simp
next
  case (Cons loan rest)
  show ?case
  proof (cases "calculateSwapOutputs e dir loan p1 p2 p3 dA dB dC s")
    case (Pair r s1)
    show ?thesis
    proof (cases r)
      case (Inl err)
      with Pair Cons.prems show ?thesis by simp
    next
      case (Inr out)
      show ?thesis
      proof (cases out)
        case None
        with Inr Pair Cons.prems Cons.IH [of best s1] show ?thesis by simp
      next
        case (Some result)
        note sim = Pair [unfolded Inr Some]
        show ?thesis
        proof (cases "minAmountOut (amountOut1 result) = 0 \<or> minAmountOut (amountOut2 result) = 0
            \<or> minAmountOut (amountOut3 result) = 0")
          case True
          with sim Cons.prems Cons.IH [of best s1] show ?thesis by (auto simp: Let_def)
        next
          case False
          let ?mins = "[minAmountOut (amountOut1 result), minAmountOut (amountOut2 result),
               minAmountOut (amountOut3 result)]"
          let ?ad = "\<lparr> path1 = p1, path2 = p2, path3 = p3, minAmountsOut = ?mins,
                          ad_direction = dir \<rparr>"
          obtain pr s2 where cp: "calculateProfit cfg e ?ad loan dir dA s1 = (Inr pr, s2)"
            using calculateProfit_from_body [of cfg e ?ad loan dir dA s1]
            by (auto split: prod.splits sum.splits)
          from False have nz: "minAmountOut (amountOut1 result) \<noteq> 0"
            "minAmountOut (amountOut2 result) \<noteq> 0" "minAmountOut (amountOut3 result) \<noteq> 0"
            by simp_all
          from Cons.prems(1) sim False cp
          have rec: "sweepLoanAmounts cfg e dir p1 p2 p3 dA dB dC rest
              (updateBest cfg best result loan ?mins pr) s2 = (Inr best', s')"
            by (simp add: Let_def)
          from Cons.IH [OF rec validBest_update [OF Cons.prems(2) sim nz]]
          show ?thesis .
        qed
      qed
    qed
  qed
qed


lemma checkArbitrageLoop_Some:
  assumes "checkArbitrageLoop cfg e pc A B C requested s = (Inr (Some opp), s')"
  shows "validOpportunity cfg e opp
       \<and> opp_direction opp = chosenDirection (priceGap opp) requested
       \<and> directionReversed opp = (priceGap opp \<ge> 5)"
proof -
  from assms have body: "checkArbitrageLoop_body cfg e pc A B C requested s = (Inr (Some opp), s')"
    unfolding checkArbitrageLoop_def by (rule tryCatch_None_SomeE)
  from body [unfolded checkArbitrageLoop_body_def]
  obtain dA sa where "getTokenDetails e A s = (Inr dA, sa)"
    and b1: "bindJ (getTokenDetails e B) (\<lambda>tokenBDetails.
     bindJ (getTokenDetails e C) (\<lambda>tokenCDetails.
     bindJ (checkPriceGap e A B C dA) (\<lambda>gap.
     (let dir = chosenDirection gap requested;
          p1 = [A, B]; p2 = [B, C]; p3 = [C, A];
          pairFound = findFlashLoanPair pc A B
                        (if dir then pancakeswapPairs pc else biswapPairs pc)
      in if pairFound = None \<or> pairFound = Some [] then returnJ None
         else
           bindJ (liftJ (parseLoanAmounts (effectiveTestAmounts pc dA)
                          (decimals dA))) (\<lambda>loanAmounts.
           bindJ (sweepLoanAmounts cfg e dir p1 p2 p3
                    dA tokenBDetails tokenCDetails loanAmounts initialBest)
             (\<lambda>best.
           case bestProfitResult best of
             None \<Rightarrow> returnJ None
           | Some pf \<Rightarrow>
               if isProfitable cfg (Profit pf)
               then returnJ (Some
                 \<lparr> opp_pairConfig = pc,
                   flashLoanPair = the pairFound,
                   opp_tokenA = A, opp_tokenB = B, opp_tokenC = C,
                   opp_tokenADetails = dA,
                   opp_tokenBDetails = tokenBDetails,
                   opp_tokenCDetails = tokenCDetails,
                   opp_loanAmount = bestLoanAmount best,
                   opp_arbitrageData =
                     \<lparr> path1 = p1, path2 = p2, path3 = p3,
                       minAmountsOut = bestMinAmountsOut best, ad_direction = dir \<rparr>,
                   profitResult = pf,
                   opp_direction = dir,
                   directionReversed = (requested \<noteq> dir),
                   priceGap = gap \<rparr>)
               else returnJ None)))))) sa = (Inr (Some opp), s')"
    by (rule bindJ_InrE)
  from b1 obtain dB sb where "getTokenDetails e B sa = (Inr dB, sb)"
    and b2: "bindJ (getTokenDetails e C) (\<lambda>tokenCDetails.
     bindJ (checkPriceGap e A B C dA) (\<lambda>gap.
     (let dir = chosenDirection gap requested;
          p1 = [A, B]; p2 = [B, C]; p3 = [C, A];
          pairFound = findFlashLoanPair pc A B
                        (if dir then pancakeswapPairs pc else biswapPairs pc)
      in if pairFound = None \<or> pairFound = Some [] then returnJ None
         else
           bindJ (liftJ (parseLoanAmounts (effectiveTestAmounts pc dA)
                          (decimals dA))) (\<lambda>loanAmounts.
           bindJ (sweepLoanAmounts cfg e dir p1 p2 p3
                    dA dB tokenCDetails loanAmounts initialBest)
             (\<lambda>best.
           case bestProfitResult best of
             None \<Rightarrow> returnJ None
           | Some pf \<Rightarrow>
               if isProfitable cfg (Profit pf)
               then returnJ (Some
                 \<lparr> opp_pairConfig = pc,
                   flashLoanPair = the pairFound,
                   opp_tokenA = A, opp_tokenB = B, opp_tokenC = C,
                   opp_tokenADetails = dA,
                   opp_tokenBDetails = dB,
                   opp_tokenCDetails = tokenCDetails,
                   opp_loanAmount = bestLoanAmount best,
                   opp_arbitrageData =
                     \<lparr> path1 = p1, path2 = p2, path3 = p3,
                       minAmountsOut = bestMinAmountsOut best, ad_direction = dir \<rparr>,
                   profitResult = pf,
                   opp_direction = dir,
                   directionReversed = (requested \<noteq> dir),
                   priceGap = gap \<rparr>)
               else returnJ None))))) sb = (Inr (Some opp), s')"
    by (rule bindJ_InrE)
  from b2 obtain dC sc where "getTokenDetails e C sb = (Inr dC, sc)"
    and b3: "bindJ (checkPriceGap e A B C dA) (\<lambda>gap.
     (let dir = chosenDirection gap requested;
          p1 = [A, B]; p2 = [B, C]; p3 = [C, A];
          pairFound = findFlashLoanPair pc A B
                        (if dir then pancakeswapPairs pc else biswapPairs pc)
      in if pairFound = None \<or> pairFound = Some [] then returnJ None
         else
           bindJ (liftJ (parseLoanAmounts (effectiveTestAmounts pc dA)
                          (decimals dA))) (\<lambda>loanAmounts.
           bindJ (sweepLoanAmounts cfg e dir p1 p2 p3
                    dA dB dC loanAmounts initialBest)
             (\<lambda>best.
           case bestProfitResult best of
             None \<Rightarrow> returnJ None
           | Some pf \<Rightarrow>
               if isProfitable cfg (Profit pf)
               then returnJ (Some
                 \<lparr> opp_pairConfig = pc,
                   flashLoanPair = the pairFound,
                   opp_tokenA = A, opp_tokenB = B, opp_tokenC = C,
                   opp_tokenADetails = dA,
                   opp_tokenBDetails = dB,
                   opp_tokenCDetails = dC,
                   opp_loanAmount = bestLoanAmount best,
                   opp_arbitrageData =
                     \<lparr> path1 = p1, path2 = p2, path3 = p3,
                       minAmountsOut = bestMinAmountsOut best, ad_direction = dir \<rparr>,
                   profitResult = pf,
                   opp_direction = dir,
                   directionReversed = (requested \<noteq> dir),
                   priceGap = gap \<rparr>)
               else returnJ None)))) sc = (Inr (Some opp), s')"
    by (rule bindJ_InrE)
  from b3 obtain gap sd where "checkPriceGap e A B C dA sc = (Inr gap, sd)"
    and b4: "(let dir = chosenDirection gap requested;
          p1 = [A, B]; p2 = [B, C]; p3 = [C, A];
          pairFound = findFlashLoanPair pc A B
                        (if dir then pancakeswapPairs pc else biswapPairs pc)
      in if pairFound = None \<or> pairFound = Some [] then returnJ None
         else
           bindJ (liftJ (parseLoanAmounts (effectiveTestAmounts pc dA)
                          (decimals dA))) (\<lambda>loanAmounts.
           bindJ (sweepLoanAmounts cfg e dir p1 p2 p3
                    dA dB dC loanAmounts initialBest)
             (\<lambda>best.
           case bestProfitResult best of
             None \<Rightarrow> returnJ None
           | Some pf \<Rightarrow>
               if isProfitable cfg (Profit pf)
               then returnJ (Some
                 \<lparr> opp_pairConfig = pc,
                   flashLoanPair = the pairFound,
                   opp_tokenA = A, opp_tokenB = B, opp_tokenC = C,
                   opp_tokenADetails = dA,
                   opp_tokenBDetails = dB,
                   opp_tokenCDetails = dC,
                   opp_loanAmount = bestLoanAmount best,
                   opp_arbitrageData =
                     \<lparr> path1 = p1, path2 = p2, path3 = p3,
                       minAmountsOut = bestMinAmountsOut best, ad_direction = dir \<rparr>,
                   profitResult = pf,
                   opp_direction = dir,
                   directionReversed = (requested \<noteq> dir),
                   priceGap = gap \<rparr>)
               else returnJ None))) sd = (Inr (Some opp), s')"
    by (rule bindJ_InrE)
  define dir where "dir = chosenDirection gap requested"
  define pairFound where "pairFound = findFlashLoanPair pc A B
                        (if dir then pancakeswapPairs pc else biswapPairs pc)"
  note b4' = b4 [unfolded Let_def, folded dir_def, folded pairFound_def]
  have found: "\<not> (pairFound = None \<or> pairFound = Some [])"
  proof
    assume "pairFound = None \<or> pairFound = Some []"
    with b4' have "returnJ None sd = (Inr (Some opp), s')" by (simp only: if_True)
    then show False by (simp add: returnJ_def)
  qed
  with b4' have b5: "bindJ (liftJ (parseLoanAmounts (effectiveTestAmounts pc dA)
                          (decimals dA))) (\<lambda>loanAmounts.
           bindJ (sweepLoanAmounts cfg e dir [A, B] [B, C] [C, A]
                    dA dB dC loanAmounts initialBest)
             (\<lambda>best.
           case bestProfitResult best of
             None \<Rightarrow> returnJ None
           | Some pf \<Rightarrow>
               if isProfitable cfg (Profit pf)
               then returnJ (Some
                 \<lparr> opp_pairConfig = pc,
                   flashLoanPair = the pairFound,
                   opp_tokenA = A, opp_tokenB = B, opp_tokenC = C,
                   opp_tokenADetails = dA,
                   opp_tokenBDetails = dB,
                   opp_tokenCDetails = dC,
                   opp_loanAmount = bestLoanAmount best,
                   opp_arbitrageData =
                     \<lparr> path1 = [A, B], path2 = [B, C], path3 = [C, A],
                       minAmountsOut = bestMinAmountsOut best, ad_direction = dir \<rparr>,
                   profitResult = pf,
                   opp_direction = dir,
                   directionReversed = (requested \<noteq> dir),
                   priceGap = gap \<rparr>)
               else returnJ None)) sd = (Inr (Some opp), s')"
    by (simp only: if_False)
  from b5 obtain loanAmounts se where
    b6: "bindJ (sweepLoanAmounts cfg e dir [A, B] [B, C] [C, A]
                    dA dB dC loanAmounts initialBest)
             (\<lambda>best.
           case bestProfitResult best of
             None \<Rightarrow> returnJ None
           | Some pf \<Rightarrow>
               if isProfitable cfg (Profit pf)
               then returnJ (Some
                 \<lparr> opp_pairConfig = pc,
                   flashLoanPair = the pairFound,
                   opp_tokenA = A, opp_tokenB = B, opp_tokenC = C,
                   opp_tokenADetails = dA,
                   opp_tokenBDetails = dB,
                   opp_tokenCDetails = dC,
                   opp_loanAmount = bestLoanAmount best,
                   opp_arbitrageData =
                     \<lparr> path1 = [A, B], path2 = [B, C], path3 = [C, A],
                       minAmountsOut = bestMinAmountsOut best, ad_direction = dir \<rparr>,
                   profitResult = pf,
                   opp_direction = dir,
                   directionReversed = (requested \<noteq> dir),
                   priceGap = gap \<rparr>)
               else returnJ None) se = (Inr (Some opp), s')"
    by (rule bindJ_InrE)
  from b6 obtain best sf where
    sw: "sweepLoanAmounts cfg e dir [A, B] [B, C] [C, A] dA dB dC loanAmounts initialBest se
           = (Inr best, sf)"
    and b7: "(case bestProfitResult best of
             None \<Rightarrow> returnJ None
           | Some pf \<Rightarrow>
               if isProfitable cfg (Profit pf)
               then returnJ (Some
                 \<lparr> opp_pairConfig = pc,
                   flashLoanPair = the pairFound,
                   opp_tokenA = A, opp_tokenB = B, opp_tokenC = C,
                   opp_tokenADetails = dA,
                   opp_tokenBDetails = dB,
                   opp_tokenCDetails = dC,
                   opp_loanAmount = bestLoanAmount best,
                   opp_arbitrageData =
                     \<lparr> path1 = [A, B], path2 = [B, C], path3 = [C, A],
                       minAmountsOut = bestMinAmountsOut best, ad_direction = dir \<rparr>,
                   profitResult = pf,
                   opp_direction = dir,
                   directionReversed = (requested \<noteq> dir),
                   priceGap = gap \<rparr>)
               else returnJ None) sf = (Inr (Some opp), s')"
    by (rule bindJ_InrE)
  from b7 obtain pf where pf: "bestProfitResult best = Some pf"
    by (cases "bestProfitResult best") (auto simp: returnJ_def)
  from b7 pf have prof: "isProfitable cfg (Profit pf)"
    by (auto simp: returnJ_def split: if_splits)
  from b7 pf prof have opp: "opp = \<lparr> opp_pairConfig = pc,
                   flashLoanPair = the pairFound,
                   opp_tokenA = A, opp_tokenB = B, opp_tokenC = C,
                   opp_tokenADetails = dA,
                   opp_tokenBDetails = dB,
                   opp_tokenCDetails = dC,
                   opp_loanAmount = bestLoanAmount best,
                   opp_arbitrageData =
                     \<lparr> path1 = [A, B], path2 = [B, C], path3 = [C, A],
                       minAmountsOut = bestMinAmountsOut best, ad_direction = dir \<rparr>,
                   profitResult = pf,
                   opp_direction = dir,
                   directionReversed = (requested \<noteq> dir),
                   priceGap = gap \<rparr>"
    by (simp add: returnJ_def)
  from sweep_validBest [OF sw validBest_initial]
  have vb: "validBest cfg e dir [A, B] [B, C] [C, A] dA dB dC best" .
  from vb pf prof have "validOpportunity cfg e opp"
    by (auto simp: validBest_def validOpportunity_def opp)
  moreover have "opp_direction opp = chosenDirection (priceGap opp) requested"
    by (simp add: opp dir_def)
  moreover have "directionReversed opp = (priceGap opp \<ge> 5)"
    by (auto simp: opp dir_def chosenDirection_def)
  ultimately show ?thesis by simp
qed

lemma checkRotations_valid:
  "checkRotations cfg e pc requested is s = (Inr opps, s')
     \<Longrightarrow> opp \<in> set opps \<Longrightarrow> validOpportunity cfg e opp"
proof (induction "is" arbitrary: s opps s')
  case Nil
  then show ?case by simp
next
  case (Cons i rest)
  obtain found s1 where 1: "checkArbitrageLoop cfg e pc (tokenAt pc i) (tokenAt pc (i + 1))
      (tokenAt pc (i + 2)) requested s = (Inr found, s1)"
    using checkArbitrageLoop_returns by blast
  obtain others s2 where 2: "checkRotations cfg e pc requested rest s1 = (Inr others, s2)"
    using checkRotations_returns by blast
  from Cons.prems(1) 1 2 have opps: "opps = (case found of None \<Rightarrow> [] | Some x \<Rightarrow> [x]) @ others"
    by simp
  show ?case
  proof (cases "opp \<in> set others")
    case True
    from Cons.IH [OF 2 True] show ?thesis .
  next
    case False
    with Cons.prems(2) opps have "found = Some opp" by (cases found) auto
    with 1 checkArbitrageLoop_Some show ?thesis by blast
  qed
qed

lemma checkPairs_valid:
  "checkPairs cfg e pairs s = (Inr opps, s') \<Longrightarrow> opp \<in> set opps
     \<Longrightarrow> validOpportunity cfg e opp"
proof (induction pairs arbitrary: s opps s')
  case Nil
  then show ?case by simp
next
  case (Cons pair rest)
  obtain a s1 where 1: "checkTriangularArbitrage cfg e pair True s = (Inr a, s1)"
    using checkTriangularArbitrage_returns by blast
  obtain b s2 where 2: "checkTriangularArbitrage cfg e pair False s1 = (Inr b, s2)"
    using checkTriangularArbitrage_returns by blast
  obtain others s3 where 3: "checkPairs cfg e rest s2 = (Inr others, s3)"
    using checkPairs_returns by blast
  from Cons.prems(1) 1 2 3 have "opps = a @ b @ others" by simp
  with Cons.prems(2) consider "opp \<in> set a" | "opp \<in> set b" | "opp \<in> set others" by auto
  then show ?case
  proof cases
    case 1
    with \<open>checkTriangularArbitrage cfg e pair True s = (Inr a, s1)\<close> show ?thesis
      unfolding checkTriangularArbitrage_def by (rule checkRotations_valid)
  next
    case 2
    with \<open>checkTriangularArbitrage cfg e pair False s1 = (Inr b, s2)\<close> show ?thesis
      unfolding checkTriangularArbitrage_def by (rule checkRotations_valid)
  next
    case 3
    from Cons.IH [OF \<open>checkPairs cfg e rest s2 = (Inr others, s3)\<close> 3] show ?thesis .
  qed
qed

lemma checkArbitrageOpportunities_valid:
  assumes "checkArbitrageOpportunities cfg e pairs s = (Inr opps, s')" "opp \<in> set opps"
  shows "validOpportunity cfg e opp"
proof -
  from assms(1) obtain raw s1 where r: "checkPairs cfg e pairs s = (Inr raw, s1)"
    and "returnJ (sort_key (\<lambda>opp. - profitPercentage (profitResult opp)) raw) s1 = (Inr opps, s')"
    unfolding checkArbitrageOpportunities_def by (rule bindJ_InrE)
  then have "set opps = set raw" by (auto simp: returnJ_def)
  with assms(2) checkPairs_valid [OF r] show ?thesis by simp
qed

section \<open>The scanner: what a scan returns\<close>

text \<open>Unfolding sets for running the scanner on a concrete world.\<close>

lemmas run_defs =
  js_defs Let_def example_env_def example_config_def initial_state_def token18_def
  getTokenDetails_def checkPriceGap_def checkTriangularPrice_def parseUnits_def
  bn_div_def tdiv_def chosenDirection_def

lemmas scan_defs = run_defs
  checkArbitrageOpportunities_def checkTriangularArbitrage_def tokenKeys_def tokenAt_def
  checkArbitrageLoop_def checkArbitrageLoop_body_def lookupToken_def nthOpt_def
  effectiveTestAmounts_def calculateSwapOutputs_def swapHop_def formatUnits_def
  minAmountOut_def initialBest_def updateBest_def calculateProfit_def calculateProfit_body_def
  getGasPrice_def applyBuffer_def BigNumber_from_def flashLoanFee_def convertToUSD_def
  getTokenPriceUSD_def getTokenPriceUSD_body_def isStablecoin_def formatEther_def
  upt_conv_Cons

lemma scan_run:
  "map (\<lambda>opp. (opp_loanAmount opp, minAmountsOut (opp_arbitrageData opp),
                profitPercentage (profitResult opp), opp_direction opp))
     (projr (fst (checkArbitrageOpportunities example_config scan_env [scan_pair]
                    (initial_state 1000000 1000))))
   = [(100 * 10 ^ 18,
       [99990000000000000000, 101989800000000000000, 103009698000000000000], 7, True)]"
  by (simp add: scan_defs scan_env_def scan_pair_def)

lemma dust_simulation:
  "calculateSwapOutputs dust_env True (100 * 10 ^ 18) [''busd'', ''wbnb''] [''wbnb'', ''cake'']
     [''cake'', ''busd''] (token18 ''busd'') (token18 ''wbnb'') (token18 ''cake'')
     (initial_state 1000000 1000)
   = (Inr (Some \<lparr> amountOut1 = 1, amountOut2 = 1, amountOut3 = 1,
                      so_loanAmount = 100 * 10 ^ 18 \<rparr>),
      (initial_state 1000000 1000)\<lparr>clock := 1000120\<rparr>)"
  by (simp add: scan_defs dust_env_def)



text \<open>
  Claim C2. Every opportunity in the list \<^verbatim>\<open>checkArbitrageOpportunities\<close> returns has a
  profit percentage of at least \<^verbatim>\<open>MIN_PROFIT_PERCENTAGE\<close>; its three minimum outputs are
  99% (rounded down) of the three hop outputs of a simulation of its loan amount in its
  direction, and all three are strictly positive. A loan amount of the sweep for which
  one of the three minimum outputs is zero is discarded: the sweep goes on with the
  remaining amounts and an unchanged best candidate.
\<close>

theorem scan_results_valid:
  "(checkArbitrageOpportunities cfg e tokenPairs s = (Inr opps, s') \<and> opp \<in> set opps \<longrightarrow>
      MIN_PROFIT_PERCENTAGE cfg \<le> profitPercentage (profitResult opp)
    \<and> (\<exists>result s0 s1.
          calculateSwapOutputs e (opp_direction opp) (opp_loanAmount opp)
            (path1 (opp_arbitrageData opp)) (path2 (opp_arbitrageData opp))
            (path3 (opp_arbitrageData opp))
            (opp_tokenADetails opp) (opp_tokenBDetails opp) (opp_tokenCDetails opp) s0
            = (Inr (Some result), s1)
        \<and> minAmountsOut (opp_arbitrageData opp) =
            [amountOut1 result * 99 div 100, amountOut2 result * 99 div 100,
             amountOut3 result * 99 div 100])
    \<and> list_all (\<lambda>m. 0 < m) (minAmountsOut (opp_arbitrageData opp)))
   \<and> (calculateSwapOutputs e dir loan p1 p2 p3 dA dB dC s = (Inr (Some result), s1)
        \<and> (minAmountOut (amountOut1 result) = 0 \<or> minAmountOut (amountOut2 result) = 0
           \<or> minAmountOut (amountOut3 result) = 0) \<longrightarrow>
        sweepLoanAmounts cfg e dir p1 p2 p3 dA dB dC (loan # rest) best s
          = sweepLoanAmounts cfg e dir p1 p2 p3 dA dB dC rest best s1)"
proof (intro conjI impI)
  assume a: "checkArbitrageOpportunities cfg e tokenPairs s = (Inr opps, s') \<and> opp \<in> set opps"
  then have v: "validOpportunity cfg e opp"
    using checkArbitrageOpportunities_valid by blast
  then show "MIN_PROFIT_PERCENTAGE cfg \<le> profitPercentage (profitResult opp)"
    by (simp add: validOpportunity_def)
  from v obtain result s0 s1 where
    sim: "calculateSwapOutputs e (opp_direction opp) (opp_loanAmount opp)
            (path1 (opp_arbitrageData opp)) (path2 (opp_arbitrageData opp))
            (path3 (opp_arbitrageData opp))
            (opp_tokenADetails opp) (opp_tokenBDetails opp) (opp_tokenCDetails opp) s0
            = (Inr (Some result), s1)"
    and mins: "minAmountsOut (opp_arbitrageData opp) =
             [minAmountOut (amountOut1 result), minAmountOut (amountOut2 result),
              minAmountOut (amountOut3 result)]"
    and pos: "0 < minAmountOut (amountOut1 result)" "0 < minAmountOut (amountOut2 result)"
      "0 < minAmountOut (amountOut3 result)"
    by (auto simp: validOpportunity_def)
  from calculateSwapOutputs_nonneg [OF sim] mins
  have "minAmountsOut (opp_arbitrageData opp) =
            [amountOut1 result * 99 div 100, amountOut2 result * 99 div 100,
             amountOut3 result * 99 div 100]"
    by (simp add: minAmountOut_nonneg)
  with sim show "\<exists>result s0 s1.
          calculateSwapOutputs e (opp_direction opp) (opp_loanAmount opp)
            (path1 (opp_arbitrageData opp)) (path2 (opp_arbitrageData opp))
            (path3 (opp_arbitrageData opp))
            (opp_tokenADetails opp) (opp_tokenBDetails opp) (opp_tokenCDetails opp) s0
            = (Inr (Some result), s1)
        \<and> minAmountsOut (opp_arbitrageData opp) =
            [amountOut1 result * 99 div 100, amountOut2 result * 99 div 100,
             amountOut3 result * 99 div 100]"
    by blast
  from mins pos show "list_all (\<lambda>m. 0 < m) (minAmountsOut (opp_arbitrageData opp))"
    by simp
next
  assume "calculateSwapOutputs e dir loan p1 p2 p3 dA dB dC s = (Inr (Some result), s1)
        \<and> (minAmountOut (amountOut1 result) = 0 \<or> minAmountOut (amountOut2 result) = 0
           \<or> minAmountOut (amountOut3 result) = 0)"
  then show "sweepLoanAmounts cfg e dir p1 p2 p3 dA dB dC (loan # rest) best s
          = sweepLoanAmounts cfg e dir p1 p2 p3 dA dB dC rest best s1"
    by (auto simp: Let_def)
qed

text \<open>
  The theorem on a scan that finds one opportunity (loan 100 tokens, profit 7% against
  a threshold of 1%), and on a sweep whose hop outputs are one unit each, so that the
  minimum outputs are zero and the loan amount is discarded.
\<close>

theorem scan_results_valid_witness:
  "(\<exists>opp s'. checkArbitrageOpportunities example_config scan_env [scan_pair]
               (initial_state 1000000 1000) = (Inr [opp], s')
     \<and> opp_loanAmount opp = 100 * 10 ^ 18
     \<and> profitPercentage (profitResult opp) = 7
     \<and> MIN_PROFIT_PERCENTAGE example_config \<le> profitPercentage (profitResult opp)
     \<and> minAmountsOut (opp_arbitrageData opp)
         = [99990000000000000000, 101989800000000000000, 103009698000000000000]
     \<and> list_all (\<lambda>m. 0 < m) (minAmountsOut (opp_arbitrageData opp)))
   \<and> minAmountOut 1 = 0
   \<and> sweepLoanAmounts example_config dust_env True [''busd'', ''wbnb''] [''wbnb'', ''cake'']
       [''cake'', ''busd''] (token18 ''busd'') (token18 ''wbnb'') (token18 ''cake'')
       [100 * 10 ^ 18] initialBest (initial_state 1000000 1000)
     = (Inr initialBest, (initial_state 1000000 1000)\<lparr>clock := 1000120\<rparr>)"
proof -
  let ?run = "checkArbitrageOpportunities example_config scan_env [scan_pair]
               (initial_state 1000000 1000)"
  obtain opps s' where r: "?run = (Inr opps, s')"
    using checkArbitrageOpportunities_returns by blast
  with scan_run obtain opp where one: "opps = [opp]"
    and f: "opp_loanAmount opp = 100 * 10 ^ 18"
      "minAmountsOut (opp_arbitrageData opp)
         = [99990000000000000000, 101989800000000000000, 103009698000000000000]"
      "profitPercentage (profitResult opp) = 7"
    by (cases opps) auto
  from r one have "?run = (Inr opps, s') \<and> opp \<in> set opps" by simp
  from scan_results_valid [THEN conjunct1, THEN mp, OF this]
  have "MIN_PROFIT_PERCENTAGE example_config \<le> profitPercentage (profitResult opp)"
    and "list_all (\<lambda>m. 0 < m) (minAmountsOut (opp_arbitrageData opp))"
    by blast+
  with r one f have 1: "\<exists>opp s'. ?run = (Inr [opp], s')
     \<and> opp_loanAmount opp = 100 * 10 ^ 18
     \<and> profitPercentage (profitResult opp) = 7
     \<and> MIN_PROFIT_PERCENTAGE example_config \<le> profitPercentage (profitResult opp)
     \<and> minAmountsOut (opp_arbitrageData opp)
         = [99990000000000000000, 101989800000000000000, 103009698000000000000]
     \<and> list_all (\<lambda>m. 0 < m) (minAmountsOut (opp_arbitrageData opp))"
    by blast
  have z: "minAmountOut 1 = 0" by (simp add: minAmountOut_def tdiv_def)
  let ?result = "\<lparr> amountOut1 = 1, amountOut2 = 1, amountOut3 = 1,
                   so_loanAmount = 100 * 10 ^ 18 \<rparr>"
  from dust_simulation z
  have "calculateSwapOutputs dust_env True (100 * 10 ^ 18) [''busd'', ''wbnb'']
          [''wbnb'', ''cake''] [''cake'', ''busd''] (token18 ''busd'') (token18 ''wbnb'')
          (token18 ''cake'') (initial_state 1000000 1000)
        = (Inr (Some ?result), (initial_state 1000000 1000)\<lparr>clock := 1000120\<rparr>)
      \<and> (minAmountOut (amountOut1 ?result) = 0 \<or> minAmountOut (amountOut2 ?result) = 0
         \<or> minAmountOut (amountOut3 ?result) = 0)"
    by simp
  from scan_results_valid [THEN conjunct2, THEN mp, OF this,
      of example_config "[]" initialBest]
  have 2: "sweepLoanAmounts example_config dust_env True [''busd'', ''wbnb''] [''wbnb'', ''cake'']
       [''cake'', ''busd''] (token18 ''busd'') (token18 ''wbnb'') (token18 ''cake'')
       [100 * 10 ^ 18] initialBest (initial_state 1000000 1000)
     = (Inr initialBest, (initial_state 1000000 1000)\<lparr>clock := 1000120\<rparr>)"
    by simp
  from 1 z 2 show ?thesis by blast
qed







section \<open>Properties of the scan coordinator\<close>






end
